theory Spec2Isabelle
  imports Main
begin

section \<open>Python values used by app.py\<close>

text \<open>
  A Python \<open>str\<close> is modelled as a \<open>string\<close> in which every \<open>char\<close> is one code point in
  the range 0..255; the host is a POSIX one (path separator \<open>/\<close>, line separator
  \<open>\<newline>\<close>). A raised exception is a value of type \<open>error\<close> that carries \<open>str(e)\<close>.
\<close>

datatype error =
    AssertionError string
  | ValueError string
  | TypeError string
  | OverflowError string
  | OSError string
  | RuntimeError string

fun str_error :: "error \<Rightarrow> string" where
  "str_error (AssertionError m) = m"
| "str_error (ValueError m) = m"
| "str_error (TypeError m) = m"
| "str_error (OverflowError m) = m"
| "str_error (OSError m) = m"
| "str_error (RuntimeError m) = m"

subsection \<open>Floats\<close>

text \<open>
  A Python \<open>float\<close> is an IEEE-754 double. \<open>Finite m e\<close> is the value \<open>m * 2^e\<close>; every
  finite double has such a form with \<open>\<bar>m\<bar> < 2^53\<close> and \<open>-1074 \<le> e\<close>. The sign of a zero is
  not kept: no operation below tells \<open>-0.0\<close> from \<open>0.0\<close>.
\<close>

datatype pyfloat = Finite int int | Inf bool | NaN

text \<open>\<open>n.bit_length()\<close> for \<open>n >= 0\<close>.\<close>

function bit_length :: "int \<Rightarrow> nat" where
  "bit_length n = (if n \<le> 0 then 0 else Suc (bit_length (n div 2)))"
  by pat_completeness auto
termination
  by (relation "measure nat") auto

declare bit_length.simps [simp del]

text \<open>\<open>n / d\<close> for \<open>d > 0\<close>, rounded to the nearest integer, a tie to the even one.\<close>

definition round_half_even :: "int \<Rightarrow> int \<Rightarrow> int" where
  "round_half_even n d =
     (let q = n div d; r = n mod d
      in if 2 * r < d then q
         else if d < 2 * r then q + 1
         else if even q then q else q + 1)"

text \<open>
  \<open>x * y\<close> on floats: the exact product is rounded once to 53 significant bits (or to the
  subnormal spacing \<open>2^-1074\<close>), ties to even; a result of \<open>2^1024\<close> or more is an infinity.
\<close>

fun float_mul :: "pyfloat \<Rightarrow> pyfloat \<Rightarrow> pyfloat" where
  "float_mul (Finite m1 e1) (Finite m2 e2) =
     (let n = m1 * m2; x = e1 + e2;
          s = max (int (bit_length \<bar>n\<bar>) - 53) (- 1074 - x);
          m = (if s \<le> 0 then n else round_half_even n (2 ^ nat s));
          e = (if s \<le> 0 then x else x + s)
      in if 1024 < int (bit_length \<bar>m\<bar>) + e then Inf (0 < m) else Finite m e)"
| "float_mul NaN _ = NaN"
| "float_mul _ NaN = NaN"
| "float_mul (Inf a) (Inf b) = Inf (a = b)"
| "float_mul (Inf a) (Finite m e) = (if m = 0 then NaN else Inf (a = (0 < m)))"
| "float_mul (Finite m e) (Inf b) = (if m = 0 then NaN else Inf ((0 < m) = b))"

declare float_mul.simps [simp del]

text \<open>\<open>x >= 0\<close> on a float.\<close>

fun float_ge_zero :: "pyfloat \<Rightarrow> bool" where
  "float_ge_zero (Finite m e) = (0 \<le> m)"
| "float_ge_zero (Inf positive) = positive"
| "float_ge_zero NaN = False"

text \<open>\<open>round(x)\<close> with one argument: the nearest \<open>int\<close>, a tie to the even one.\<close>

fun py_round :: "pyfloat \<Rightarrow> error + int" where
  "py_round (Finite m e) =
     Inr (if 0 \<le> e then m * 2 ^ nat e else round_half_even m (2 ^ nat (- e)))"
| "py_round (Inf _) = Inl (OverflowError ''cannot convert float infinity to integer'')"
| "py_round NaN = Inl (ValueError ''cannot convert float NaN to integer'')"

text \<open>\<open>int(x)\<close> on a float truncates towards zero.\<close>

fun int_of_float :: "pyfloat \<Rightarrow> error + int" where
  "int_of_float (Finite m e) =
     Inr (if 0 \<le> e then m * 2 ^ nat e
          else if 0 \<le> m then m div 2 ^ nat (- e) else - ((- m) div 2 ^ nat (- e)))"
| "int_of_float (Inf _) = Inl (OverflowError ''cannot convert float infinity to integer'')"
| "int_of_float NaN = Inl (ValueError ''cannot convert float NaN to integer'')"

text \<open>
  A float literal: the double nearest to the fraction \<open>p / q\<close> (\<open>q > 0\<close>), a tie to the even
  mantissa. The literal \<open>3661.2005\<close> is \<open>float_literal 36612005 10000\<close>.
\<close>

definition float_literal :: "int \<Rightarrow> int \<Rightarrow> pyfloat" where
  "float_literal p q =
     (if p = 0 then Finite 0 0
      else
        let a = \<bar>p\<bar>;
            k = int (bit_length a) - int (bit_length q);
            e = (if (if 0 \<le> k then q * 2 ^ nat k \<le> a else q \<le> a * 2 ^ nat (- k))
                 then k else k - 1);
            x = max (e - 52) (- 1074);
            m = (if 0 \<le> x then round_half_even a (q * 2 ^ nat x)
                 else round_half_even (a * 2 ^ nat (- x)) q)
        in if 1024 < int (bit_length m) + x then Inf (0 < p)
           else Finite (if 0 < p then m else - m) x)"

subsection \<open>Integers as text\<close>

definition digit_char :: "nat \<Rightarrow> char" where
  "digit_char d = ''0123456789'' ! d"

text \<open>The decimal digits of \<open>n >= 0\<close>.\<close>

function digits :: "int \<Rightarrow> string" where
  "digits n =
     (if n < 10 then [digit_char (nat n)]
      else digits (n div 10) @ [digit_char (nat (n mod 10))])"
  by pat_completeness auto
termination
  by (relation "measure nat") auto

declare digits.simps [simp del]

text \<open>\<open>str(n)\<close> for an \<open>int\<close>.\<close>

definition str_int :: "int \<Rightarrow> string" where
  "str_int n = (if n < 0 then ''-'' @ digits (- n) else digits n)"

definition zfill :: "nat \<Rightarrow> string \<Rightarrow> string" where
  "zfill w s = replicate (w - length s) (CHR ''0'') @ s"

text \<open>The format specification \<open>{n:0wd}\<close>: sign first, then zeros up to width \<open>w\<close>.\<close>

definition format_0d :: "nat \<Rightarrow> int \<Rightarrow> string" where
  "format_0d w n =
     (if n < 0 then ''-'' @ zfill (w - 1) (digits (- n)) else zfill w (digits n))"

section \<open>Strings\<close>

text \<open>\<open>str.isspace\<close> on one character (code points below 256).\<close>

definition isspace :: "char \<Rightarrow> bool" where
  "isspace c \<longleftrightarrow> c \<in> set [CHR 0x09, CHR 0x0A, CHR 0x0B, CHR 0x0C, CHR 0x0D, CHR 0x1C, CHR 0x1D,
                           CHR 0x1E, CHR 0x1F, CHR 0x20, CHR 0x85, CHR 0xA0]"

text \<open>\<open>s.strip()\<close>.\<close>

definition strip :: "string \<Rightarrow> string" where
  "strip s = rev (dropWhile isspace (rev (dropWhile isspace s)))"

text \<open>
  \<open>s.replace(old, new)\<close>: one pass from the left over the occurrences of \<open>old\<close> that do
  not overlap; the text put in is not looked at again.
\<close>

function replace :: "string \<Rightarrow> string \<Rightarrow> string \<Rightarrow> string" where
  "replace s old new =
     (if old = [] then new @ concat (map (\<lambda>c. c # new) s)
      else if s = [] then []
      else if take (length old) s = old then new @ replace (drop (length old) s) old new
      else hd s # replace (tl s) old new)"
  by pat_completeness auto
termination
  by (relation "measure (\<lambda>(s, old, new). length s)") auto

declare replace.simps [simp del]

text \<open>
  What a file opened with \<open>open(path, "r")\<close> hands to \<open>read()\<close>: with the default
  \<open>newline=None\<close> every \<open>\r\<newline>\<close> and every lone \<open>\r\<close> of the file arrives as \<open>\<newline>\<close>.
\<close>

fun universal_newlines :: "string \<Rightarrow> string" where
  "universal_newlines [] = []"
| "universal_newlines [c] = (if c = CHR 0x0D then [CHR 0x0A] else [c])"
| "universal_newlines (c # d # cs) =
     (if c = CHR 0x0D \<and> d = CHR 0x0A then CHR 0x0A # universal_newlines cs
      else if c = CHR 0x0D then CHR 0x0A # universal_newlines (d # cs)
      else c # universal_newlines (d # cs))"

text \<open>\<open>repr(s)\<close> for a \<open>str\<close>.\<close>

definition hex_char :: "nat \<Rightarrow> char" where
  "hex_char d = ''0123456789abcdef'' ! d"

definition repr_char :: "char \<Rightarrow> char \<Rightarrow> string" where
  "repr_char quote c =
     (let n = (of_char c :: nat)
      in if c = CHR 0x5C \<or> c = quote then [CHR 0x5C, c]
         else if c = CHR 0x09 then [CHR 0x5C, CHR ''t'']
         else if c = CHR 0x0A then [CHR 0x5C, CHR ''n'']
         else if c = CHR 0x0D then [CHR 0x5C, CHR ''r'']
         else if n < 32 \<or> (127 \<le> n \<and> n \<le> 160) \<or> n = 173
           then [CHR 0x5C, CHR ''x'', hex_char (n div 16), hex_char (n mod 16)]
         else [c])"

definition repr :: "string \<Rightarrow> string" where
  "repr s =
     (let quote = (if CHR 0x27 \<in> set s \<and> CHR 0x22 \<notin> set s then CHR 0x22 else CHR 0x27)
      in [quote] @ concat (map (repr_char quote) s) @ [quote])"

subsection \<open>int() on a string\<close>

definition is_digit :: "char \<Rightarrow> bool" where
  "is_digit c \<longleftrightarrow> c \<in> set ''0123456789''"

definition digit_value :: "char \<Rightarrow> int" where
  "digit_value c = of_char c - 48"

text \<open>The characters \<open>int()\<close> skips around a literal.\<close>

definition int_space :: "char \<Rightarrow> bool" where
  "int_space c \<longleftrightarrow> c \<in> set [CHR 0x09, CHR 0x0A, CHR 0x0B, CHR 0x0C, CHR 0x0D, CHR 0x20, CHR 0x85,
                            CHR 0xA0]"

definition int_max_str_digits :: nat where
  "int_max_str_digits = 4300"

fun has_double_underscore :: "string \<Rightarrow> bool" where
  "has_double_underscore (c # d # cs) =
     ((c = CHR ''_'' \<and> d = CHR ''_'') \<or> has_double_underscore (d # cs))"
| "has_double_underscore _ = False"

definition invalid_literal :: "string \<Rightarrow> error" where
  "invalid_literal s = ValueError (''invalid literal for int() with base 10: '' @ take 200 (repr s))"

text \<open>
  \<open>int(s)\<close> for a \<open>str\<close>: whitespace around, an optional sign, then decimal digits with
  single underscores between them; anything else is a \<open>ValueError\<close>, and so is a literal
  of more digits than the interpreter's limit (4300 unless changed).
\<close>

definition int_of_str :: "string \<Rightarrow> error + int" where
  "int_of_str s =
     (let s1 = dropWhile int_space s;
          negative = (s1 \<noteq> [] \<and> hd s1 = CHR ''-'');
          s2 = (if s1 \<noteq> [] \<and> (hd s1 = CHR ''+'' \<or> hd s1 = CHR ''-'') then tl s1 else s1);
          body = takeWhile (\<lambda>c. is_digit c \<or> c = CHR ''_'') s2;
          rest = dropWhile (\<lambda>c. is_digit c \<or> c = CHR ''_'') s2;
          ds = filter is_digit body
      in if s2 \<noteq> [] \<and> hd s2 = CHR ''_'' then Inl (invalid_literal s)
         else if has_double_underscore body \<or> (body \<noteq> [] \<and> last body = CHR ''_'')
           then Inl (invalid_literal s)
         else if int_max_str_digits < length ds
           then Inl (ValueError (''Exceeds the limit ('' @ digits (int int_max_str_digits)
                  @ '' digits) for integer string conversion: value has '' @ digits (int (length ds))
                  @ '' digits; use sys.set_int_max_str_digits() to increase the limit''))
         else if body = [] then Inl (invalid_literal s)
         else if dropWhile int_space rest \<noteq> [] then Inl (invalid_literal s)
         else
           let v = foldl (\<lambda>acc c. 10 * acc + digit_value c) 0 ds
           in Inr (if negative then - v else v))"

subsection \<open>Dynamically typed parameters\<close>

datatype pyval = PNone | PInt int | PStr string | PFloat pyfloat

text \<open>Truth value of \<open>if v:\<close>.\<close>

fun truthy :: "pyval \<Rightarrow> bool" where
  "truthy PNone = False"
| "truthy (PInt n) = (n \<noteq> 0)"
| "truthy (PStr s) = (s \<noteq> [])"
| "truthy (PFloat (Finite m e)) = (m \<noteq> 0)"
| "truthy (PFloat _) = True"

text \<open>\<open>int(v)\<close>.\<close>

fun py_int :: "pyval \<Rightarrow> error + int" where
  "py_int PNone = Inl (TypeError
     (''int() argument must be a string, a bytes-like object or a real number, not ''
      @ [CHR 0x27] @ ''NoneType'' @ [CHR 0x27]))"
| "py_int (PInt n) = Inr n"
| "py_int (PStr s) = int_of_str s"
| "py_int (PFloat x) = int_of_float x"

section \<open>format\_timestamp\<close>

definition format_timestamp :: "pyfloat \<Rightarrow> bool \<Rightarrow> string \<Rightarrow> error + string" where
  "format_timestamp seconds always_include_hours decimal_marker =
     (if \<not> float_ge_zero seconds then Inl (AssertionError ''non-negative timestamp expected'')
      else case py_round (float_mul seconds (float_literal 1000 1)) of
        Inl e \<Rightarrow> Inl e
      | Inr milliseconds0 \<Rightarrow>
          let hours = milliseconds0 div 3600000;
              milliseconds1 = milliseconds0 - hours * 3600000;
              minutes = milliseconds1 div 60000;
              milliseconds2 = milliseconds1 - minutes * 60000;
              seconds' = milliseconds2 div 1000;
              milliseconds3 = milliseconds2 - seconds' * 1000;
              hours_marker =
                (if always_include_hours \<or> 0 < hours then format_0d 2 hours @ '':'' else [])
          in Inr (hours_marker @ format_0d 2 minutes @ '':'' @ format_0d 2 seconds'
                  @ decimal_marker @ format_0d 3 milliseconds3))"

section \<open>Documents, capabilities and the world\<close>

text \<open>
  A segment is the dict the exporter reads: the keys \<open>start\<close>, \<open>end\<close>, \<open>text\<close> and the
  optional key \<open>speaker\<close>. A result is the dict handed from stage to stage: the key
  \<open>segments\<close> and the optional key \<open>language\<close>.
\<close>

record segment =
  seg_start :: pyfloat
  seg_end :: pyfloat
  seg_text :: string
  seg_speaker :: "string option"

record result =
  segments :: "segment list"
  language :: "string option"

datatype audio_file = Filepath string | FileData "(string \<times> string) list"

type_synonym handle = nat

text \<open>One invocation of a capability of the \<open>whisperx\<close> package, with its arguments.\<close>

datatype call =
    Call_load_model string string string
  | Call_transcribe handle audio_file "string option" string pyval pyval
  | Call_load_align_model string string "string option"
  | Call_align "segment list" nat nat audio_file string bool string
  | Call_DiarizationPipeline string "string option"
  | Call_diarize_model nat audio_file pyval pyval
  | Call_assign_word_speakers nat result

text \<open>
  What lies outside app.py is a parameter: the \<open>whisperx\<close> capabilities (each may answer
  differently depending on the calls made so far, and may raise), \<open>json.dump\<close> (the text it
  writes, and the exception if it raises part-way), \<open>open\<close> (the exception for a path and
  a mode, \<open>True\<close> for writing), \<open>Path.mkdir\<close> and \<open>time.time\<close>.
\<close>

record externals =
  load_model :: "call list \<Rightarrow> string \<Rightarrow> string \<Rightarrow> string \<Rightarrow> error + handle"
  transcribe :: "call list \<Rightarrow> handle \<Rightarrow> audio_file \<Rightarrow> string option \<Rightarrow> string \<Rightarrow> pyval \<Rightarrow> pyval
                 \<Rightarrow> error + result"
  load_align_model :: "call list \<Rightarrow> string \<Rightarrow> string \<Rightarrow> string option \<Rightarrow> error + nat \<times> nat"
  align :: "call list \<Rightarrow> segment list \<Rightarrow> nat \<Rightarrow> nat \<Rightarrow> audio_file \<Rightarrow> string \<Rightarrow> bool \<Rightarrow> string
            \<Rightarrow> error + result"
  DiarizationPipeline :: "call list \<Rightarrow> string \<Rightarrow> string option \<Rightarrow> error + nat"
  diarize_model :: "call list \<Rightarrow> nat \<Rightarrow> audio_file \<Rightarrow> pyval \<Rightarrow> pyval \<Rightarrow> error + nat"
  assign_word_speakers :: "call list \<Rightarrow> nat \<Rightarrow> result \<Rightarrow> error + result"
  json_dump :: "result \<Rightarrow> string \<times> error option"
  open_error :: "string \<Rightarrow> bool \<Rightarrow> error option"
  mkdir_error :: "error option"
  time_time :: pyfloat

record WhisperXManager =
  asr_model :: "handle option"
  asr_options :: pyval
  model_name :: "string option"
  device :: "string option"
  compute_type :: "string option"

text \<open>
  The state a run reads and changes: the global \<open>MODEL_MANAGER\<close>, the files (path to
  content) and the log of capability invocations, oldest first.
\<close>

record world =
  MODEL_MANAGER :: WhisperXManager
  files :: "string \<rightharpoonup> string"
  calls :: "call list"

text \<open>
  The parameters of \<open>transcribe_audio\<close> that its body reads. (\<open>hotwords\<close> is parsed into a
  list that is never used, inside a \<open>try\<close> that swallows every exception; the remaining
  parameters are not read at all.)
\<close>

record config =
  cfg_audio_file :: audio_file
  cfg_model :: string
  cfg_task :: string
  cfg_language :: "string option"
  cfg_device :: string
  cfg_compute_type :: string
  cfg_batch_size :: pyval
  cfg_align_model :: "string option"
  cfg_no_align :: bool
  cfg_interpolate_method :: string
  cfg_return_char_alignments :: bool
  cfg_chunk_size :: pyval
  cfg_diarize :: bool
  cfg_min_speakers :: pyval
  cfg_max_speakers :: pyval

section \<open>WhisperXManager\<close>

definition WhisperXManager_init :: WhisperXManager where
  "WhisperXManager_init =
     \<lparr>asr_model = None, asr_options = PNone, model_name = None, device = None,
      compute_type = None\<rparr>"

text \<open>The body of the \<open>if\<close> in \<open>get_asr_model\<close>: load, then record the key.\<close>

definition reload_asr_model ::
  "externals \<Rightarrow> world \<Rightarrow> string \<Rightarrow> string \<Rightarrow> string \<Rightarrow> (error + handle) \<times> world" where
  "reload_asr_model ext w model_name' device' compute_type' =
     (let w1 = w\<lparr>calls := calls w @ [Call_load_model model_name' device' compute_type']\<rparr>
      in case load_model ext (calls w) model_name' device' compute_type' of
           Inl e \<Rightarrow> (Inl e, w1)
         | Inr h \<Rightarrow>
             (Inr h,
              w1\<lparr>MODEL_MANAGER :=
                   (MODEL_MANAGER w)\<lparr>asr_model := Some h, model_name := Some model_name',
                     device := Some device', compute_type := Some compute_type'\<rparr>\<rparr>))"

definition get_asr_model ::
  "externals \<Rightarrow> world \<Rightarrow> string \<Rightarrow> string \<Rightarrow> string \<Rightarrow> (error + handle) \<times> world" where
  "get_asr_model ext w model_name' device' compute_type' =
     (let self = MODEL_MANAGER w
      in case asr_model self of
           None \<Rightarrow> reload_asr_model ext w model_name' device' compute_type'
         | Some h \<Rightarrow>
             if Some model_name' \<noteq> model_name self \<or> Some device' \<noteq> device self
                \<or> Some compute_type' \<noteq> compute_type self
             then reload_asr_model ext w model_name' device' compute_type'
             else (Inr h, w))"

section \<open>transcribe\_audio: the stages\<close>

definition audio_path_of :: "audio_file \<Rightarrow> audio_file" where
  "audio_path_of audio_file' =
     (case audio_file' of
        FileData d \<Rightarrow> (case map_of d ''path'' of Some p \<Rightarrow> Filepath p | None \<Rightarrow> audio_file')
      | Filepath p \<Rightarrow> audio_file')"

text \<open>Lines 154-157: \<open>if v: v = int(v)\<close>.\<close>

definition parse_speakers :: "pyval \<Rightarrow> error + pyval" where
  "parse_speakers v =
     (if truthy v then (case py_int v of Inl e \<Rightarrow> Inl e | Inr n \<Rightarrow> Inr (PInt n)) else Inr v)"

text \<open>Lines 189-191: the language code used for alignment.\<close>

definition detected_language :: "string option \<Rightarrow> result \<Rightarrow> string" where
  "detected_language language' result' =
     (let detected = (case language result' of None \<Rightarrow> ''en'' | Some l \<Rightarrow> l)
      in case language' of
           None \<Rightarrow> detected
         | Some l \<Rightarrow> if l \<noteq> [] \<and> strip l \<noteq> [] then strip l else detected)"

definition transcribe_step ::
  "externals \<Rightarrow> config \<Rightarrow> audio_file \<Rightarrow> handle \<Rightarrow> world \<Rightarrow> (error + result) \<times> world" where
  "transcribe_step ext cfg audio_path model_manager w =
     (transcribe ext (calls w) model_manager audio_path (cfg_language cfg) (cfg_task cfg)
        (cfg_batch_size cfg) (cfg_chunk_size cfg),
      w\<lparr>calls := calls w @ [Call_transcribe model_manager audio_path (cfg_language cfg)
                               (cfg_task cfg) (cfg_batch_size cfg) (cfg_chunk_size cfg)]\<rparr>)"

definition align_step ::
  "externals \<Rightarrow> config \<Rightarrow> audio_file \<Rightarrow> result \<Rightarrow> world \<Rightarrow> (error + result) \<times> world" where
  "align_step ext cfg audio_path result' w =
     (if cfg_no_align cfg then (Inr result', w)
      else
        let lang = detected_language (cfg_language cfg) result';
            name = (case cfg_align_model cfg of
                      None \<Rightarrow> None
                    | Some a \<Rightarrow> if a \<noteq> [] \<and> strip a \<noteq> [] then Some a else None);
            w1 = w\<lparr>calls := calls w @ [Call_load_align_model lang (cfg_device cfg) name]\<rparr>
        in case load_align_model ext (calls w) lang (cfg_device cfg) name of
             Inl e \<Rightarrow> (Inl e, w1)
           | Inr (alignment_model, align_metadata) \<Rightarrow>
               (align ext (calls w1) (segments result') alignment_model align_metadata audio_path
                  (cfg_device cfg) (cfg_return_char_alignments cfg) (cfg_interpolate_method cfg),
                w1\<lparr>calls := calls w1 @ [Call_align (segments result') alignment_model
                     align_metadata audio_path (cfg_device cfg) (cfg_return_char_alignments cfg)
                     (cfg_interpolate_method cfg)]\<rparr>))"

definition diarize_step ::
  "externals \<Rightarrow> config \<Rightarrow> audio_file \<Rightarrow> pyval \<Rightarrow> pyval \<Rightarrow> result \<Rightarrow> world
   \<Rightarrow> (error + result) \<times> world" where
  "diarize_step ext cfg audio_path min_speakers max_speakers result' w =
     (if \<not> cfg_diarize cfg then (Inr result', w)
      else
        let hf_token = None;
            w1 = w\<lparr>calls := calls w @ [Call_DiarizationPipeline (cfg_device cfg) hf_token]\<rparr>
        in case DiarizationPipeline ext (calls w) (cfg_device cfg) hf_token of
             Inl e \<Rightarrow> (Inl e, w1)
           | Inr diarize_model' \<Rightarrow>
               let w2 = w1\<lparr>calls := calls w1 @ [Call_diarize_model diarize_model' audio_path
                                                  min_speakers max_speakers]\<rparr>
               in case diarize_model ext (calls w1) diarize_model' audio_path min_speakers
                         max_speakers of
                    Inl e \<Rightarrow> (Inl e, w2)
                  | Inr diarize_segments \<Rightarrow>
                      (assign_word_speakers ext (calls w2) diarize_segments result',
                       w2\<lparr>calls := calls w2 @ [Call_assign_word_speakers diarize_segments
                                                 result']\<rparr>))"

text \<open>Steps 1 to 3, lines 171-232.\<close>

definition run_stages ::
  "externals \<Rightarrow> config \<Rightarrow> audio_file \<Rightarrow> handle \<Rightarrow> pyval \<Rightarrow> pyval \<Rightarrow> world
   \<Rightarrow> (error + result) \<times> world" where
  "run_stages ext cfg audio_path model_manager min_speakers max_speakers w =
     (case transcribe_step ext cfg audio_path model_manager w of
        (Inl e, w1) \<Rightarrow> (Inl e, w1)
      | (Inr result1, w1) \<Rightarrow>
          (case align_step ext cfg audio_path result1 w1 of
             (Inl e, w2) \<Rightarrow> (Inl e, w2)
           | (Inr result2, w2) \<Rightarrow>
               diarize_step ext cfg audio_path min_speakers max_speakers result2 w2))"

section \<open>transcribe\_audio: saving the outputs\<close>

definition output_dir :: string where
  "output_dir = ''whisperx_output''"

text \<open>\<open>str(output_dir / f"{file_prefix}{suffix}")\<close>.\<close>

definition output_path :: "string \<Rightarrow> string \<Rightarrow> string" where
  "output_path file_prefix suffix = output_dir @ ''/'' @ file_prefix @ suffix"

text \<open>Lines 250-253: one line of the plain-text file.\<close>

definition txt_line :: "bool \<Rightarrow> segment \<Rightarrow> string" where
  "txt_line diarize segment' =
     (case (if diarize then seg_speaker segment' else None) of
        Some speaker \<Rightarrow> ''['' @ speaker @ '']: '' @ strip (seg_text segment') @ ''\<newline>''
      | None \<Rightarrow> strip (seg_text segment') @ ''\<newline>'')"

text \<open>Lines 263-265: the text of an SRT cue.\<close>

definition srt_text :: "bool \<Rightarrow> segment \<Rightarrow> string" where
  "srt_text diarize segment' =
     (let text' = replace (strip (seg_text segment')) ''-->'' ''->''
      in case (if diarize then seg_speaker segment' else None) of
           Some speaker \<Rightarrow> ''['' @ speaker @ '']: '' @ text'
         | None \<Rightarrow> text')"

text \<open>Lines 260-267: one SRT cue, or the exception \<open>format_timestamp\<close> raises.\<close>

definition srt_cue :: "bool \<Rightarrow> nat \<Rightarrow> segment \<Rightarrow> error + string" where
  "srt_cue diarize i segment' =
     (case format_timestamp (seg_start segment') True '','' of
        Inl e \<Rightarrow> Inl e
      | Inr start_time \<Rightarrow>
          (case format_timestamp (seg_end segment') True '','' of
             Inl e \<Rightarrow> Inl e
           | Inr end_time \<Rightarrow>
               Inr (str_int (int i) @ ''\<newline>'' @ start_time @ '' --> '' @ end_time @ ''\<newline>''
                    @ srt_text diarize segment' @ ''\<newline>\<newline>'')))"

text \<open>Lines 278-280: the text of a VTT cue.\<close>

definition vtt_text :: "bool \<Rightarrow> segment \<Rightarrow> string" where
  "vtt_text diarize segment' =
     (let text' = replace (strip (seg_text segment')) ''-->'' ''->''
      in case (if diarize then seg_speaker segment' else None) of
           Some speaker \<Rightarrow> ''['' @ speaker @ '']: '' @ text'
         | None \<Rightarrow> text')"

text \<open>Lines 275-282: one VTT cue.\<close>

definition vtt_cue :: "bool \<Rightarrow> segment \<Rightarrow> error + string" where
  "vtt_cue diarize segment' =
     (case format_timestamp (seg_start segment') False ''.'' of
        Inl e \<Rightarrow> Inl e
      | Inr start_time \<Rightarrow>
          (case format_timestamp (seg_end segment') False ''.'' of
             Inl e \<Rightarrow> Inl e
           | Inr end_time \<Rightarrow>
               Inr (start_time @ '' --> '' @ end_time @ ''\<newline>'' @ vtt_text diarize segment'
                    @ ''\<newline>\<newline>'')))"

text \<open>
  The two \<open>for\<close> loops over \<open>enumerate(result["segments"], start=1)\<close>: the text written
  to the file, and the exception that ended the loop early, if any.
\<close>

fun write_srt :: "bool \<Rightarrow> nat \<Rightarrow> segment list \<Rightarrow> string \<times> error option" where
  "write_srt diarize i [] = ([], None)"
| "write_srt diarize i (segment' # rest) =
     (case srt_cue diarize i segment' of
        Inl e \<Rightarrow> ([], Some e)
      | Inr cue \<Rightarrow> (case write_srt diarize (Suc i) rest of (written, err) \<Rightarrow> (cue @ written, err)))"

fun write_vtt :: "bool \<Rightarrow> segment list \<Rightarrow> string \<times> error option" where
  "write_vtt diarize [] = ([], None)"
| "write_vtt diarize (segment' # rest) =
     (case vtt_cue diarize segment' of
        Inl e \<Rightarrow> ([], Some e)
      | Inr cue \<Rightarrow> (case write_vtt diarize rest of (written, err) \<Rightarrow> (cue @ written, err)))"

text \<open>
  \<open>with open(path, "w", encoding="utf-8") as f\<close> and what the block writes: \<open>open\<close> may
  raise; if not, the file holds what was written when the block is left, also when it is
  left by an exception.
\<close>

definition write_file ::
  "externals \<Rightarrow> string \<Rightarrow> string \<times> error option \<Rightarrow> (string \<rightharpoonup> string)
   \<Rightarrow> error option \<times> (string \<rightharpoonup> string)" where
  "write_file ext path block fs =
     (case open_error ext path True of
        Some e \<Rightarrow> (Some e, fs)
      | None \<Rightarrow> (snd block, fs(path \<mapsto> fst block)))"

text \<open>\<open>with open(path, "r", encoding="utf-8") as f: f.read()\<close>.\<close>

definition read_file :: "externals \<Rightarrow> string \<Rightarrow> (string \<rightharpoonup> string) \<Rightarrow> error + string" where
  "read_file ext path fs =
     (case open_error ext path False of
        Some e \<Rightarrow> Inl e
      | None \<Rightarrow>
          (case fs path of
             None \<Rightarrow> Inl (OSError (''[Errno 2] No such file or directory: '' @ repr path))
           | Some content \<Rightarrow> Inr (universal_newlines content)))"

text \<open>Lines 237-290: the four files in order, then the transcript read back.\<close>

definition save_outputs ::
  "externals \<Rightarrow> string \<Rightarrow> bool \<Rightarrow> result \<Rightarrow> (string \<rightharpoonup> string)
   \<Rightarrow> (error + string \<times> string list) \<times> (string \<rightharpoonup> string)" where
  "save_outputs ext file_prefix diarize result' fs =
     (let json_path = output_path file_prefix ''.json'';
          txt_path = output_path file_prefix ''.txt'';
          srt_path = output_path file_prefix ''.srt'';
          vtt_path = output_path file_prefix ''.vtt''
      in case write_file ext json_path (json_dump ext result') fs of
           (Some e, fs1) \<Rightarrow> (Inl e, fs1)
         | (None, fs1) \<Rightarrow>
        (case write_file ext txt_path
                (concat (map (txt_line diarize) (segments result')), None) fs1 of
           (Some e, fs2) \<Rightarrow> (Inl e, fs2)
         | (None, fs2) \<Rightarrow>
        (case write_file ext srt_path (write_srt diarize 1 (segments result')) fs2 of
           (Some e, fs3) \<Rightarrow> (Inl e, fs3)
         | (None, fs3) \<Rightarrow>
        (case write_file ext vtt_path
                (case write_vtt diarize (segments result') of
                   (written, err) \<Rightarrow> (''WEBVTT\<newline>\<newline>'' @ written, err)) fs3 of
           (Some e, fs4) \<Rightarrow> (Inl e, fs4)
         | (None, fs4) \<Rightarrow>
        (case read_file ext txt_path fs4 of
           Inl e \<Rightarrow> (Inl e, fs4)
         | Inr transcript \<Rightarrow>
             (Inr (transcript, [json_path, txt_path, srt_path, vtt_path]), fs4))))))"

section \<open>transcribe\_audio\<close>

text \<open>Both \<open>except Exception as e\<close> clauses: \<open>return f"Error: {str(e)}", []\<close>.\<close>

definition handle_exception :: "error + string \<times> string list \<Rightarrow> string \<times> string list" where
  "handle_exception r = (case r of Inl e \<Rightarrow> (''Error: '' @ str_error e, []) | Inr out \<Rightarrow> out)"

text \<open>The body of the inner \<open>try\<close>, lines 171-290.\<close>

definition inner_try ::
  "externals \<Rightarrow> config \<Rightarrow> string \<Rightarrow> audio_file \<Rightarrow> handle \<Rightarrow> pyval \<Rightarrow> pyval \<Rightarrow> world
   \<Rightarrow> (error + string \<times> string list) \<times> world" where
  "inner_try ext cfg file_prefix audio_path model_manager min_speakers max_speakers w =
     (case run_stages ext cfg audio_path model_manager min_speakers max_speakers w of
        (Inl e, w1) \<Rightarrow> (Inl e, w1)
      | (Inr result', w1) \<Rightarrow>
          (case save_outputs ext file_prefix (cfg_diarize cfg) result' (files w1) of
             (r, fs) \<Rightarrow> (r, w1\<lparr>files := fs\<rparr>)))"

text \<open>
  The body of the outer \<open>try\<close>, lines 144-295: \<open>Inl\<close> is an exception on its way to the
  outer handler, \<open>Inr\<close> a value returned (by the inner handler too).
\<close>

definition outer_try ::
  "externals \<Rightarrow> config \<Rightarrow> string \<Rightarrow> world \<Rightarrow> (error + string \<times> string list) \<times> world" where
  "outer_try ext cfg file_prefix w =
     (let audio_path = audio_path_of (cfg_audio_file cfg)
      in case get_asr_model ext w (cfg_model cfg) (cfg_device cfg) (cfg_compute_type cfg) of
           (Inl e, w1) \<Rightarrow> (Inl e, w1)
         | (Inr model_manager, w1) \<Rightarrow>
        (case parse_speakers (cfg_min_speakers cfg) of
           Inl e \<Rightarrow> (Inl e, w1)
         | Inr min_speakers \<Rightarrow>
        (case parse_speakers (cfg_max_speakers cfg) of
           Inl e \<Rightarrow> (Inl e, w1)
         | Inr max_speakers \<Rightarrow>
        (case inner_try ext cfg file_prefix audio_path model_manager min_speakers
                max_speakers w1 of
           (r, w2) \<Rightarrow> (Inr (handle_exception r), w2)))))"

text \<open>
  The statements of the two \<open>try\<close> blocks in sequence, without the handlers: \<open>Inl\<close> is
  the exception that ends them.
\<close>

definition pipeline ::
  "externals \<Rightarrow> config \<Rightarrow> string \<Rightarrow> world \<Rightarrow> (error + string \<times> string list) \<times> world" where
  "pipeline ext cfg file_prefix w =
     (case get_asr_model ext w (cfg_model cfg) (cfg_device cfg) (cfg_compute_type cfg) of
        (Inl e, w1) \<Rightarrow> (Inl e, w1)
      | (Inr model_manager, w1) \<Rightarrow>
     (case parse_speakers (cfg_min_speakers cfg) of
        Inl e \<Rightarrow> (Inl e, w1)
      | Inr min_speakers \<Rightarrow>
     (case parse_speakers (cfg_max_speakers cfg) of
        Inl e \<Rightarrow> (Inl e, w1)
      | Inr max_speakers \<Rightarrow>
     (case run_stages ext cfg (audio_path_of (cfg_audio_file cfg)) model_manager min_speakers
             max_speakers w1 of
        (Inl e, w2) \<Rightarrow> (Inl e, w2)
      | (Inr result', w2) \<Rightarrow>
          (case save_outputs ext file_prefix (cfg_diarize cfg) result' (files w2) of
             (r, fs) \<Rightarrow> (r, w2\<lparr>files := fs\<rparr>))))))"

text \<open>Lines 138-141.\<close>

definition file_prefix_of :: "pyfloat \<Rightarrow> error + string" where
  "file_prefix_of now =
     (case int_of_float now of
        Inl e \<Rightarrow> Inl e
      | Inr timestamp \<Rightarrow> Inr (''transcript_'' @ str_int timestamp))"

text \<open>
  The whole function. \<open>Inl\<close> is an exception that leaves \<open>transcribe_audio\<close>: the
  directory and the prefix are made before the outer \<open>try\<close>.
\<close>

definition transcribe_audio ::
  "externals \<Rightarrow> config \<Rightarrow> world \<Rightarrow> (error + string \<times> string list) \<times> world" where
  "transcribe_audio ext cfg w =
     (case mkdir_error ext of
        Some e \<Rightarrow> (Inl e, w)
      | None \<Rightarrow>
          (case file_prefix_of (time_time ext) of
             Inl e \<Rightarrow> (Inl e, w)
           | Inr file_prefix \<Rightarrow>
               (case outer_try ext cfg file_prefix w of
                  (r, w') \<Rightarrow> (Inr (handle_exception r), w'))))"

text \<open>Line 275: \<open>MODEL_MANAGER = WhisperXManager()\<close>, before any file is written.\<close>

definition initial_world :: world where
  "initial_world = \<lparr>MODEL_MANAGER = WhisperXManager_init, files = Map.empty, calls = []\<rparr>"

section \<open>Notions of the specification\<close>

text \<open>A non-negative number zero-padded to two and to three decimal digits.\<close>

definition two_digits :: "int \<Rightarrow> string" where
  "two_digits n = [digit_char (nat (n div 10)), digit_char (nat (n mod 10))]"

definition three_digits :: "int \<Rightarrow> string" where
  "three_digits n =
     [digit_char (nat (n div 100)), digit_char (nat (n div 10 mod 10)),
      digit_char (nat (n mod 10))]"

text \<open>\<open>sub in s\<close>: \<open>sub\<close> occurs in \<open>s\<close>.\<close>

fun contains :: "string \<Rightarrow> string \<Rightarrow> bool" where
  "contains [] sub = (sub = [])"
| "contains (c # cs) sub = (take (length sub) (c # cs) = sub \<or> contains cs sub)"



text \<open>The invocations a run has made since the state \<open>w\<close>.\<close>

definition calls_since :: "world \<Rightarrow> world \<Rightarrow> call list" where
  "calls_since w w' = drop (length (calls w)) (calls w')"

text \<open>The invocations that run inference on the audio or load an inference model for it.\<close>

fun is_stage_call :: "call \<Rightarrow> bool" where
  "is_stage_call (Call_load_model _ _ _) = False"
| "is_stage_call _ = True"

text \<open>
  The speaker prefix in the specification's words: \<open>[speaker]: \<close> when the run is
  diarized and the segment has a speaker, nothing otherwise.
\<close>

definition speaker_prefix :: "bool \<Rightarrow> segment \<Rightarrow> string" where
  "speaker_prefix diarized segment' =
     (if diarized \<and> seg_speaker segment' \<noteq> None
      then ''['' @ the (seg_speaker segment') @ '']: '' else [])"

text \<open>
  The timestamp \<open>format_timestamp\<close> returns, as the text a cue shows; empty if it raises.
\<close>

definition timestamp_of :: "pyfloat \<Rightarrow> bool \<Rightarrow> string \<Rightarrow> string" where
  "timestamp_of seconds always_include_hours decimal_marker =
     (case format_timestamp seconds always_include_hours decimal_marker of
        Inr t \<Rightarrow> t
      | Inl e \<Rightarrow> [])"

text \<open>The exception, if any, that parsing the two speaker bounds raises.\<close>

definition speakers_error :: "config \<Rightarrow> error option" where
  "speakers_error cfg =
     (case parse_speakers (cfg_min_speakers cfg) of
        Inl e \<Rightarrow> Some e
      | Inr _ \<Rightarrow> (case parse_speakers (cfg_max_speakers cfg) of Inl e \<Rightarrow> Some e | Inr _ \<Rightarrow> None))"

section \<open>An example installation\<close>

text \<open>
  Capabilities that never fail: the transcriber hears one segment and detects English,
  the aligner keeps the segments, the diarizer names one speaker.
\<close>

definition example_segment :: segment where
  "example_segment =
     \<lparr>seg_start = float_literal 15 10, seg_end = float_literal 375 100,
      seg_text = ''hello world'', seg_speaker = None\<rparr>"

definition example_externals :: externals where
  "example_externals =
     \<lparr>load_model = (\<lambda>cs model_name' device' compute_type'. Inr (length cs)),
      transcribe = (\<lambda>cs h a l t b c. Inr \<lparr>segments = [example_segment], language = Some ''en''\<rparr>),
      load_align_model = (\<lambda>cs l d n. Inr (1, 2)),
      align = (\<lambda>cs segs am md a d r i. Inr \<lparr>segments = segs, language = None\<rparr>),
      DiarizationPipeline = (\<lambda>cs d t. Inr 3),
      diarize_model = (\<lambda>cs dm a mn mx. Inr 4),
      assign_word_speakers =
        (\<lambda>cs ds r. Inr (r\<lparr>segments := map (\<lambda>s. s\<lparr>seg_speaker := Some ''SPEAKER_00''\<rparr>)
                                       (segments r)\<rparr>)),
      json_dump = (\<lambda>r. (''{}'', None)),
      open_error = (\<lambda>path writing. None),
      mkdir_error = None,
      time_time = float_literal 170000000025 100\<rparr>"

definition example_config :: config where
  "example_config =
     \<lparr>cfg_audio_file = Filepath ''audio.wav'', cfg_model = ''medium'', cfg_task = ''transcribe'',
      cfg_language = None, cfg_device = ''cuda'', cfg_compute_type = ''float16'',
      cfg_batch_size = PInt 16, cfg_align_model = None, cfg_no_align = False,
      cfg_interpolate_method = ''nearest'', cfg_return_char_alignments = False,
      cfg_chunk_size = PInt 30, cfg_diarize = False, cfg_min_speakers = PNone,
      cfg_max_speakers = PNone\<rparr>"

section \<open>Lemmas on numbers and their digits\<close>

lemma round_half_even_nonneg: "0 \<le> n \<Longrightarrow> 0 < d \<Longrightarrow> 0 \<le> round_half_even n d"
  by (simp add: round_half_even_def Let_def pos_imp_zdiv_nonneg_iff)

lemma float_mul_nonneg:
  assumes "0 \<le> m1" "0 \<le> m2" "float_mul (Finite m1 e1) (Finite m2 e2) = Finite m e"
  shows "0 \<le> m"
  using assms
  by (auto simp: float_mul.simps Let_def round_half_even_nonneg split: if_splits)

lemma py_round_Finite_nonneg: "0 \<le> m \<Longrightarrow> py_round (Finite m e) = Inr ms \<Longrightarrow> 0 \<le> ms"
  by (auto simp: round_half_even_nonneg)

lemma float_mul_Finite_cases:
  "(\<exists>m e. float_mul (Finite m1 e1) (Finite m2 e2) = Finite m e)
   \<or> (\<exists>b. float_mul (Finite m1 e1) (Finite m2 e2) = Inf b)"
  by (simp add: float_mul.simps Let_def)

lemma thousand: "float_literal 1000 1 = Finite 8796093022208000 (- 43)"
  by code_simp

lemma py_round_nonneg:
  assumes "float_ge_zero seconds" "py_round (float_mul seconds (float_literal 1000 1)) = Inr ms"
  shows "0 \<le> ms"
proof (cases seconds)
  case (Finite m1 e1)
  with assms(1) have m1: "0 \<le> m1" by simp
  from float_mul_Finite_cases[of m1 e1 8796093022208000 "- 43"] show ?thesis
  proof (elim disjE exE)
    fix m e
    assume eq: "float_mul (Finite m1 e1) (Finite 8796093022208000 (- 43)) = Finite m e"
    from float_mul_nonneg[OF m1 _ eq] have "0 \<le> m" by simp
    moreover from assms(2) have "py_round (Finite m e) = Inr ms"
      by (simp only: Finite eq thousand)
    ultimately show ?thesis by (rule py_round_Finite_nonneg)
  next
    fix b
    assume eq: "float_mul (Finite m1 e1) (Finite 8796093022208000 (- 43)) = Inf b"
    from assms(2) have "py_round (Inf b) = Inr ms"
      by (simp only: Finite eq thousand)
    then show ?thesis by simp
  qed
next
  case (Inf x)
  from assms(2) show ?thesis by (simp add: Inf float_mul.simps thousand)
next
  case NaN
  with assms show ?thesis by simp
qed

lemma digits_lt_10: "n < 10 \<Longrightarrow> digits n = [digit_char (nat n)]"
  by (simp add: digits.simps)

lemma digits_lt_100:
  "10 \<le> n \<Longrightarrow> n < 100 \<Longrightarrow> digits n = [digit_char (nat (n div 10)), digit_char (nat (n mod 10))]"
  by (subst digits.simps) (simp add: digits_lt_10)

lemma digits_lt_1000:
  "100 \<le> n \<Longrightarrow> n < 1000 \<Longrightarrow>
   digits n = [digit_char (nat (n div 100)), digit_char (nat (n div 10 mod 10)),
               digit_char (nat (n mod 10))]"
proof -
  assume n: "100 \<le> n" "n < 1000"
  have "n div 10 div 10 = n div 100"
    by (simp add: zdiv_zmult2_eq[symmetric])
  with n show ?thesis
    by (subst digits.simps) (simp add: digits_lt_100)
qed

lemma digit_char_0: "digit_char 0 = CHR ''0''"
  by (simp add: digit_char_def)

lemma format_0d_2: "0 \<le> n \<Longrightarrow> n < 100 \<Longrightarrow> format_0d 2 n = two_digits n"
  by (cases "n < 10")
     (simp_all add: format_0d_def zfill_def digits_lt_10 digits_lt_100 digit_char_0
        two_digits_def)

lemma format_0d_3: "0 \<le> n \<Longrightarrow> n < 1000 \<Longrightarrow> format_0d 3 n = three_digits n"
  apply (cases "n < 10")
   apply (simp add: format_0d_def zfill_def digits_lt_10 digit_char_0 numeral_3_eq_3
      three_digits_def)
  apply (cases "n < 100")
   apply (simp add: format_0d_def zfill_def digits_lt_100 digit_char_0 three_digits_def)
  apply (simp add: format_0d_def zfill_def digits_lt_1000 three_digits_def)
  done

lemma length_digits_ge_2: "10 \<le> n \<Longrightarrow> 2 \<le> length (digits n)"
proof -
  assume "10 \<le> n"
  then have "digits n = digits (n div 10) @ [digit_char (nat (n mod 10))]"
    by (subst digits.simps) simp
  moreover have "digits (n div 10) \<noteq> []"
    by (subst digits.simps) simp
  ultimately show ?thesis
    by (cases "digits (n div 10)") simp_all
qed

lemma format_0d_2_large: "100 \<le> n \<Longrightarrow> format_0d 2 n = digits n"
  using length_digits_ge_2[of n] by (simp add: format_0d_def zfill_def)

subsection \<open>The successive divisions of format\_timestamp\<close>

lemma hours_remainder: "(ms::int) - ms div 3600000 * 3600000 = ms mod 3600000"
  by (simp add: minus_div_mult_eq_mod)

lemma minutes_field: "((ms::int) mod 3600000) div 60000 = ms div 60000 mod 60"
proof -
  have "ms mod (60000 * 60) = 60000 * (ms div 60000 mod 60) + ms mod 60000"
    by (rule zmod_zmult2_eq) simp
  then have "(ms mod 3600000) div 60000 = (60000 * (ms div 60000 mod 60) + ms mod 60000) div 60000"
    by simp
  also have "\<dots> = ms div 60000 mod 60"
    by simp
  finally show ?thesis .
qed

lemma minutes_remainder: "(ms::int) mod 3600000 - ms div 60000 mod 60 * 60000 = ms mod 60000"
proof -
  have "ms mod (60000 * 60) = 60000 * (ms div 60000 mod 60) + ms mod 60000"
    by (rule zmod_zmult2_eq) simp
  then show ?thesis by simp
qed

lemma seconds_field: "((ms::int) mod 60000) div 1000 = ms div 1000 mod 60"
proof -
  have "ms mod (1000 * 60) = 1000 * (ms div 1000 mod 60) + ms mod 1000"
    by (rule zmod_zmult2_eq) simp
  then have "(ms mod 60000) div 1000 = (1000 * (ms div 1000 mod 60) + ms mod 1000) div 1000"
    by simp
  also have "\<dots> = ms div 1000 mod 60"
    by simp
  finally show ?thesis .
qed

lemma seconds_remainder: "(ms::int) mod 60000 - ms div 1000 mod 60 * 1000 = ms mod 1000"
proof -
  have "ms mod (1000 * 60) = 1000 * (ms div 1000 mod 60) + ms mod 1000"
    by (rule zmod_zmult2_eq) simp
  then show ?thesis by simp
qed

lemma format_timestamp_unfold:
  assumes "float_ge_zero seconds"
    and "py_round (float_mul seconds (float_literal 1000 1)) = Inr ms"
  shows "format_timestamp seconds aih mk =
     Inr ((if aih \<or> 0 < ms div 3600000 then format_0d 2 (ms div 3600000) @ '':'' else [])
          @ format_0d 2 (ms div 60000 mod 60) @ '':'' @ format_0d 2 (ms div 1000 mod 60)
          @ mk @ format_0d 3 (ms mod 1000))"
  using assms unfolding format_timestamp_def Let_def
  by (simp only: hours_remainder minutes_field minutes_remainder seconds_field
      seconds_remainder not_True_eq_False if_False sum.case)

section \<open>The timestamp formatter\<close>

text \<open>
  C2, as format_timestamp computes it. For a float \<open>seconds >= 0\<close> whose product with
  \<open>1000.0\<close> rounds to the integer \<open>ms\<close> (\<open>round\<close> takes a tie to the even integer), the
  result is the hour field, present if and only if \<open>always_include_hours\<close> or
  \<open>hours > 0\<close> and then zero-padded to two digits with a colon after it, followed by
  two-digit minutes, a colon, two-digit seconds, the marker and three-digit milliseconds,
  the fields being those of the successive divisions of \<open>ms\<close>. In particular
  \<open>format_timestamp(0, False, ".")\<close> is \<open>00:00.000\<close>, and
  \<open>format_timestamp(3661.2005, True, ",")\<close> is \<open>01:01:01,200\<close>: the product is the tie
  \<open>3661200.5\<close>.
\<close>

theorem format_timestamp_fields:
  assumes "float_ge_zero seconds"
    and "py_round (float_mul seconds (float_literal 1000 1)) = Inr ms"
  shows "format_timestamp seconds always_include_hours decimal_marker =
           Inr ((if always_include_hours \<or> 0 < ms div 3600000
                 then format_0d 2 (ms div 3600000) @ '':'' else [])
                @ two_digits (ms div 60000 mod 60) @ '':'' @ two_digits (ms div 1000 mod 60)
                @ decimal_marker @ three_digits (ms mod 1000))
         \<and> format_0d 2 (ms div 3600000) =
             (if ms div 3600000 < 100 then two_digits (ms div 3600000)
              else digits (ms div 3600000))
         \<and> format_timestamp (float_literal 0 1) False ''.'' = Inr ''00:00.000''
         \<and> format_timestamp (float_literal 36612005 10000) True '','' = Inr ''01:01:01,200''"
proof -
  have ms: "0 \<le> ms" using assms by (rule py_round_nonneg)
  then have h: "0 \<le> ms div 3600000"
    by (simp add: pos_imp_zdiv_nonneg_iff)
  have fields: "format_0d 2 (ms div 60000 mod 60) = two_digits (ms div 60000 mod 60)"
    "format_0d 2 (ms div 1000 mod 60) = two_digits (ms div 1000 mod 60)"
    "format_0d 3 (ms mod 1000) = three_digits (ms mod 1000)"
    by (simp_all add: format_0d_2 format_0d_3)
  have "format_timestamp seconds always_include_hours decimal_marker =
           Inr ((if always_include_hours \<or> 0 < ms div 3600000
                 then format_0d 2 (ms div 3600000) @ '':'' else [])
                @ two_digits (ms div 60000 mod 60) @ '':'' @ two_digits (ms div 1000 mod 60)
                @ decimal_marker @ three_digits (ms mod 1000))"
    using format_timestamp_unfold[OF assms] by (simp only: fields)
  moreover have "format_0d 2 (ms div 3600000) =
             (if ms div 3600000 < 100 then two_digits (ms div 3600000)
              else digits (ms div 3600000))"
    using h by (simp add: format_0d_2 format_0d_2_large)
  moreover have "format_timestamp (float_literal 0 1) False ''.'' = Inr ''00:00.000''"
    by code_simp
  moreover have
    "format_timestamp (float_literal 36612005 10000) True '','' = Inr ''01:01:01,200''"
    by code_simp
  ultimately show ?thesis by (simp only: simp_thms)
qed

theorem format_timestamp_fields_witness:
  "float_ge_zero (float_literal 15 10)
   \<and> py_round (float_mul (float_literal 15 10) (float_literal 1000 1)) = Inr 1500
   \<and> format_timestamp (float_literal 15 10) True '','' = Inr ''00:00:01,500''"
proof -
  have a: "float_ge_zero (float_literal 15 10)"
    by code_simp
  have b: "py_round (float_mul (float_literal 15 10) (float_literal 1000 1)) = Inr 1500"
    by code_simp
  have c: "(if True \<or> 0 < (1500::int) div 3600000 then format_0d 2 (1500 div 3600000) @ '':''
            else [])
           @ two_digits (1500 div 60000 mod 60) @ '':'' @ two_digits (1500 div 1000 mod 60)
           @ '','' @ three_digits (1500 mod 1000) = ''00:00:01,500''"
    by code_simp
  from format_timestamp_fields[OF a b, of True "'',''"]
  have "format_timestamp (float_literal 15 10) True '','' = Inr ''00:00:01,500''"
    by (simp only: c)
  with a b show ?thesis by (simp only: simp_thms)
qed

text \<open>
  C2 as the specification has it fails on its own example: the result for \<open>3661.2005\<close>
  is not \<open>01:01:01,201\<close>.
\<close>

theorem format_timestamp_3661_counterexample:
  "format_timestamp (float_literal 36612005 10000) True '','' \<noteq> Inr ''01:01:01,201''"
  by code_simp

section \<open>The model cache\<close>

lemma get_asr_model_resident:
  assumes "get_asr_model ext w n d c = (Inr h, w1)"
  shows "asr_model (MODEL_MANAGER w1) = Some h \<and> model_name (MODEL_MANAGER w1) = Some n
         \<and> device (MODEL_MANAGER w1) = Some d \<and> compute_type (MODEL_MANAGER w1) = Some c"
  using assms
  by (auto simp: get_asr_model_def reload_asr_model_def Let_def
      split: option.splits sum.splits if_splits)

lemma get_asr_model_hit:
  assumes "asr_model (MODEL_MANAGER w) = Some h" "model_name (MODEL_MANAGER w) = Some n"
    "device (MODEL_MANAGER w) = Some d" "compute_type (MODEL_MANAGER w) = Some c"
  shows "get_asr_model ext w n d c = (Inr h, w)"
  using assms by (simp add: get_asr_model_def Let_def)

lemma get_asr_model_miss:
  assumes "asr_model (MODEL_MANAGER w) = Some h" "model_name (MODEL_MANAGER w) = Some n"
    "device (MODEL_MANAGER w) = Some d" "compute_type (MODEL_MANAGER w) = Some c"
    "(n', d', c') \<noteq> (n, d, c)"
  shows "get_asr_model ext w n' d' c' = reload_asr_model ext w n' d' c'"
  using assms by (auto simp: get_asr_model_def Let_def)

lemma reload_asr_model_calls:
  "calls (snd (reload_asr_model ext w n d c)) = calls w @ [Call_load_model n d c]"
  by (simp add: reload_asr_model_def Let_def split: sum.splits)

lemma reload_asr_model_loaded:
  assumes "load_model ext (calls w) n d c = Inr h"
  shows "reload_asr_model ext w n d c =
     (Inr h, w\<lparr>calls := calls w @ [Call_load_model n d c],
               MODEL_MANAGER := (MODEL_MANAGER w)\<lparr>asr_model := Some h, model_name := Some n,
                  device := Some d, compute_type := Some c\<rparr>\<rparr>)"
  using assms by (simp add: reload_asr_model_def Let_def)

text \<open>
  C3. After a call of \<open>get_asr_model\<close> that returned a handle, a second call with the same
  model name, device and compute type returns the same handle and leaves the world as it
  is: the loader is not invoked. A second call with a key that differs in any component
  invokes the loader exactly once, and when the loader returns a handle, that handle is
  returned and is the resident one, under the new key.
\<close>

theorem get_asr_model_cache:
  assumes "get_asr_model ext w n d c = (Inr h, w1)"
  shows "get_asr_model ext w1 n d c = (Inr h, w1)
     \<and> ((n', d', c') \<noteq> (n, d, c) \<longrightarrow>
          calls (snd (get_asr_model ext w1 n' d' c')) = calls w1 @ [Call_load_model n' d' c']
          \<and> (\<forall>h'. load_model ext (calls w1) n' d' c' = Inr h' \<longrightarrow>
                get_asr_model ext w1 n' d' c' =
                  (Inr h', w1\<lparr>calls := calls w1 @ [Call_load_model n' d' c'],
                     MODEL_MANAGER := (MODEL_MANAGER w1)\<lparr>asr_model := Some h',
                       model_name := Some n', device := Some d', compute_type := Some c'\<rparr>\<rparr>)))"
proof -
  from get_asr_model_resident[OF assms]
  have r: "asr_model (MODEL_MANAGER w1) = Some h" "model_name (MODEL_MANAGER w1) = Some n"
    "device (MODEL_MANAGER w1) = Some d" "compute_type (MODEL_MANAGER w1) = Some c"
    by simp_all
  have hit: "get_asr_model ext w1 n d c = (Inr h, w1)"
    using r by (rule get_asr_model_hit)
  have miss: "get_asr_model ext w1 n' d' c' = reload_asr_model ext w1 n' d' c'"
    if "(n', d', c') \<noteq> (n, d, c)"
    using r that by (rule get_asr_model_miss)
  show ?thesis
    using hit miss reload_asr_model_calls[of ext w1 n' d' c']
      reload_asr_model_loaded[of ext w1 n' d' c']
    by (cases "(n', d', c') = (n, d, c)") simp_all
qed

theorem get_asr_model_cache_witness:
  "fst (get_asr_model example_externals initial_world ''medium'' ''cuda'' ''float16'') = Inr 0
   \<and> fst (get_asr_model example_externals
        (snd (get_asr_model example_externals initial_world ''medium'' ''cuda'' ''float16''))
        ''medium'' ''cuda'' ''float16'') = Inr 0
   \<and> calls (snd (get_asr_model example_externals
        (snd (get_asr_model example_externals initial_world ''medium'' ''cuda'' ''float16''))
        ''medium'' ''cuda'' ''float16'')) = [Call_load_model ''medium'' ''cuda'' ''float16'']
   \<and> fst (get_asr_model example_externals
        (snd (get_asr_model example_externals initial_world ''medium'' ''cuda'' ''float16''))
        ''large-v2'' ''cuda'' ''float16'') = Inr 1
   \<and> calls (snd (get_asr_model example_externals
        (snd (get_asr_model example_externals initial_world ''medium'' ''cuda'' ''float16''))
        ''large-v2'' ''cuda'' ''float16'')) =
       [Call_load_model ''medium'' ''cuda'' ''float16'',
        Call_load_model ''large-v2'' ''cuda'' ''float16'']"
proof -
  define w1 where
    "w1 = snd (get_asr_model example_externals initial_world ''medium'' ''cuda'' ''float16'')"
  have first: "get_asr_model example_externals initial_world ''medium'' ''cuda'' ''float16'' =
      (Inr 0, w1)"
    unfolding w1_def
    by (simp add: get_asr_model_def reload_asr_model_def example_externals_def
        initial_world_def WhisperXManager_init_def)
  have c1: "calls w1 = [Call_load_model ''medium'' ''cuda'' ''float16'']"
    unfolding w1_def
    by (simp add: get_asr_model_def reload_asr_model_def example_externals_def
        initial_world_def WhisperXManager_init_def)
  have l: "load_model example_externals (calls w1) ''large-v2'' ''cuda'' ''float16'' = Inr 1"
    by (simp add: c1 example_externals_def)
  have ne: "(''large-v2'', ''cuda'', ''float16'') \<noteq> (''medium'', ''cuda'', ''float16'')"
    by simp
  from get_asr_model_cache[OF first, of "''large-v2''" "''cuda''" "''float16''"] ne l
  show ?thesis
    unfolding w1_def[symmetric] by (simp add: first c1)
qed

section \<open>Language resolution\<close>



lemma transcribe_step_calls:
  "calls (snd (transcribe_step ext cfg a h w)) =
     calls w @ [Call_transcribe h a (cfg_language cfg) (cfg_task cfg) (cfg_batch_size cfg)
                  (cfg_chunk_size cfg)]"
  by (simp add: transcribe_step_def)






section \<open>The exporter\<close>

lemma output_path_distinct:
  "output_path p ''.json'' \<noteq> output_path p ''.txt''"
  "output_path p ''.json'' \<noteq> output_path p ''.srt''"
  "output_path p ''.json'' \<noteq> output_path p ''.vtt''"
  "output_path p ''.txt'' \<noteq> output_path p ''.srt''"
  "output_path p ''.txt'' \<noteq> output_path p ''.vtt''"
  "output_path p ''.srt'' \<noteq> output_path p ''.vtt''"
  by (simp_all add: output_path_def)

lemma universal_newlines_id: "CHR 0x0D \<notin> set s \<Longrightarrow> universal_newlines s = s"
  by (induction s rule: universal_newlines.induct) auto

lemma save_outputs_success:
  assumes "save_outputs ext p d r fs = (Inr (t, fl), fs')"
  shows "fl = [output_path p ''.json'', output_path p ''.txt'', output_path p ''.srt'',
               output_path p ''.vtt'']"
    and "fs' (output_path p ''.txt'') = Some (concat (map (txt_line d) (segments r)))"
    and "t = universal_newlines (concat (map (txt_line d) (segments r)))"
  using assms
  by (auto simp: save_outputs_def write_file_def read_file_def Let_def output_path_distinct
      split: prod.splits option.splits sum.splits)

lemma save_outputs_ok:
  assumes "\<And>path writing. open_error ext path writing = None"
    and "json_dump ext r = (js, None)"
    and "write_srt d 1 (segments r) = (srt, None)"
    and "write_vtt d (segments r) = (vtt, None)"
  shows "save_outputs ext p d r fs =
     (Inr (universal_newlines (concat (map (txt_line d) (segments r))),
           [output_path p ''.json'', output_path p ''.txt'', output_path p ''.srt'',
            output_path p ''.vtt'']),
      fs(output_path p ''.json'' \<mapsto> js,
         output_path p ''.txt'' \<mapsto> concat (map (txt_line d) (segments r)),
         output_path p ''.srt'' \<mapsto> srt,
         output_path p ''.vtt'' \<mapsto> ''WEBVTT\<newline>\<newline>'' @ vtt))"
  using assms
  by (simp add: save_outputs_def write_file_def read_file_def Let_def output_path_distinct)

lemma hello_srt:
  "write_srt False 1
     [\<lparr>seg_start = float_literal 15 10, seg_end = float_literal 375 100,
       seg_text = ''hello world'', seg_speaker = None\<rparr>] =
   (''1\<newline>00:00:01,500 --> 00:00:03,750\<newline>hello world\<newline>\<newline>'', None)"
  by code_simp

lemma hello_vtt:
  "write_vtt False
     [\<lparr>seg_start = float_literal 15 10, seg_end = float_literal 375 100,
       seg_text = ''hello world'', seg_speaker = None\<rparr>] =
   (''00:01.500 --> 00:03.750\<newline>hello world\<newline>\<newline>'', None)"
  by code_simp

lemma hello_txt:
  "concat (map (txt_line False)
     [\<lparr>seg_start = float_literal 15 10, seg_end = float_literal 375 100,
       seg_text = ''hello world'', seg_speaker = None\<rparr>]) = ''hello world\<newline>''"
  by code_simp

lemma hello_read: "universal_newlines ''hello world\<newline>'' = ''hello world\<newline>''"
  by code_simp

text \<open>
  C1, as the exporter writes it. For the document of the single segment
  \<open>{start: 1.5, end: 3.75, text: "hello world"}\<close>, without diarization, when \<open>open\<close> and
  \<open>json.dump\<close> do not raise, exactly four files are written and listed in the order
  \<open>.json\<close>, \<open>.txt\<close>, \<open>.srt\<close>, \<open>.vtt\<close> under one prefix; the SRT file is the cue
  \<open>1 / 00:00:01,500 --> 00:00:03,750 / hello world\<close>, the text file and the returned
  transcript are \<open>hello world\<close> and a newline, and the VTT file is the header \<open>WEBVTT\<close>
  and the cue \<open>00:01.500 --> 00:03.750 / hello world\<close>: the hour field is left out.
\<close>

theorem hello_world_artifacts:
  assumes "\<And>path writing. open_error ext path writing = None"
    and "snd (json_dump ext
           \<lparr>segments = [\<lparr>seg_start = float_literal 15 10, seg_end = float_literal 375 100,
                          seg_text = ''hello world'', seg_speaker = None\<rparr>],
            language = lang\<rparr>) = None"
  shows "save_outputs ext file_prefix False
           \<lparr>segments = [\<lparr>seg_start = float_literal 15 10, seg_end = float_literal 375 100,
                          seg_text = ''hello world'', seg_speaker = None\<rparr>],
            language = lang\<rparr> fs =
         (Inr (''hello world\<newline>'',
               [output_path file_prefix ''.json'', output_path file_prefix ''.txt'',
                output_path file_prefix ''.srt'', output_path file_prefix ''.vtt'']),
          fs(output_path file_prefix ''.json'' \<mapsto>
               fst (json_dump ext
                 \<lparr>segments = [\<lparr>seg_start = float_literal 15 10,
                                seg_end = float_literal 375 100,
                                seg_text = ''hello world'', seg_speaker = None\<rparr>],
                  language = lang\<rparr>),
             output_path file_prefix ''.txt'' \<mapsto> ''hello world\<newline>'',
             output_path file_prefix ''.srt'' \<mapsto>
               ''1\<newline>00:00:01,500 --> 00:00:03,750\<newline>hello world\<newline>\<newline>'',
             output_path file_prefix ''.vtt'' \<mapsto>
               ''WEBVTT\<newline>\<newline>00:01.500 --> 00:03.750\<newline>hello world\<newline>\<newline>''))"
proof -
  let ?doc = "\<lparr>segments = [\<lparr>seg_start = float_literal 15 10, seg_end = float_literal 375 100,
                          seg_text = ''hello world'', seg_speaker = None\<rparr>],
            language = lang\<rparr>"
  have j: "json_dump ext ?doc = (fst (json_dump ext ?doc), None)"
    using assms(2) by (cases "json_dump ext ?doc") simp
  have s: "write_srt False 1 (segments ?doc) =
      (''1\<newline>00:00:01,500 --> 00:00:03,750\<newline>hello world\<newline>\<newline>'', None)"
    using hello_srt by simp
  have v: "write_vtt False (segments ?doc) =
      (''00:01.500 --> 00:03.750\<newline>hello world\<newline>\<newline>'', None)"
    using hello_vtt by simp
  have t: "concat (map (txt_line False) (segments ?doc)) = ''hello world\<newline>''"
    using hello_txt by simp
  show ?thesis
    using save_outputs_ok[where p = "file_prefix" and fs = fs, OF assms(1) j s v]
    by (simp only: t hello_read append_Cons append_Nil)
qed

theorem hello_world_artifacts_witness:
  "save_outputs example_externals ''transcript_1700000000'' False
     \<lparr>segments = [\<lparr>seg_start = float_literal 15 10, seg_end = float_literal 375 100,
                    seg_text = ''hello world'', seg_speaker = None\<rparr>],
      language = Some ''en''\<rparr> Map.empty =
   (Inr (''hello world\<newline>'',
         [''whisperx_output/transcript_1700000000.json'',
          ''whisperx_output/transcript_1700000000.txt'',
          ''whisperx_output/transcript_1700000000.srt'',
          ''whisperx_output/transcript_1700000000.vtt'']),
    [''whisperx_output/transcript_1700000000.json'' \<mapsto> ''{}'',
     ''whisperx_output/transcript_1700000000.txt'' \<mapsto> ''hello world\<newline>'',
     ''whisperx_output/transcript_1700000000.srt'' \<mapsto>
        ''1\<newline>00:00:01,500 --> 00:00:03,750\<newline>hello world\<newline>\<newline>'',
     ''whisperx_output/transcript_1700000000.vtt'' \<mapsto>
        ''WEBVTT\<newline>\<newline>00:01.500 --> 00:03.750\<newline>hello world\<newline>\<newline>''])"
proof -
  have a: "\<And>path writing. open_error example_externals path writing = None"
    by (simp add: example_externals_def)
  have b: "snd (json_dump example_externals
           \<lparr>segments = [\<lparr>seg_start = float_literal 15 10, seg_end = float_literal 375 100,
                          seg_text = ''hello world'', seg_speaker = None\<rparr>],
            language = Some ''en''\<rparr>) = None"
    by (simp add: example_externals_def)
  have c: "fst (json_dump example_externals
           \<lparr>segments = [\<lparr>seg_start = float_literal 15 10, seg_end = float_literal 375 100,
                          seg_text = ''hello world'', seg_speaker = None\<rparr>],
            language = Some ''en''\<rparr>) = ''{}''"
    by (simp add: example_externals_def)
  show ?thesis
    using hello_world_artifacts[OF a b, of "''transcript_1700000000''" Map.empty]
    by (simp add: c output_path_def output_dir_def)
qed

text \<open>
  C1 as the specification has it fails: the VTT file of this document does not contain
  the cue \<open>00:00:01.500 --> 00:00:03.750 / hello world\<close>.
\<close>

theorem hello_world_vtt_counterexample:
  "\<not> contains
      (the (snd (save_outputs example_externals ''transcript_1700000000'' False
                  \<lparr>segments = [\<lparr>seg_start = float_literal 15 10,
                                 seg_end = float_literal 375 100,
                                 seg_text = ''hello world'', seg_speaker = None\<rparr>],
                   language = Some ''en''\<rparr> Map.empty)
             ''whisperx_output/transcript_1700000000.vtt''))
      ''00:00:01.500 --> 00:00:03.750\<newline>hello world\<newline>\<newline>''"
proof -
  let ?doc = "\<lparr>segments = [\<lparr>seg_start = float_literal 15 10, seg_end = float_literal 375 100,
                          seg_text = ''hello world'', seg_speaker = None\<rparr>],
            language = Some ''en''\<rparr>"
  have a: "\<And>path writing. open_error example_externals path writing = None"
    by (simp add: example_externals_def)
  have j: "json_dump example_externals ?doc = (''{}'', None)"
    by (simp add: example_externals_def)
  have s: "write_srt False 1 (segments ?doc) =
      (''1\<newline>00:00:01,500 --> 00:00:03,750\<newline>hello world\<newline>\<newline>'', None)"
    using hello_srt by simp
  have v: "write_vtt False (segments ?doc) =
      (''00:01.500 --> 00:03.750\<newline>hello world\<newline>\<newline>'', None)"
    using hello_vtt by simp
  have "the (snd (save_outputs example_externals ''transcript_1700000000'' False ?doc Map.empty)
             ''whisperx_output/transcript_1700000000.vtt'') =
        ''WEBVTT\<newline>\<newline>00:01.500 --> 00:03.750\<newline>hello world\<newline>\<newline>''"
    using save_outputs_ok[where p = "''transcript_1700000000''" and fs = Map.empty,
        OF a j s v]
    by (simp add: output_path_def output_dir_def)
  moreover have "\<not> contains
      ''WEBVTT\<newline>\<newline>00:01.500 --> 00:03.750\<newline>hello world\<newline>\<newline>''
      ''00:00:01.500 --> 00:00:03.750\<newline>hello world\<newline>\<newline>''"
    by code_simp
  ultimately show ?thesis by (simp only: simp_thms)
qed

text \<open>
  C7, as the exporter does it. On success the plain-text file holds the lines written,
  and the returned transcript is that content as a text-mode read returns it: every
  \<open>\r\<newline>\<close> and every lone \<open>\r\<close> of the file comes back as \<open>\<newline>\<close>. The two are equal
  whenever the content has no \<open>\r\<close>.
\<close>

theorem transcript_read_back:
  assumes "save_outputs ext file_prefix diarize result' fs = (Inr (transcript, output_files), fs')"
  shows "fs' (output_path file_prefix ''.txt'') =
           Some (concat (map (txt_line diarize) (segments result')))
     \<and> transcript = universal_newlines (concat (map (txt_line diarize) (segments result')))
     \<and> (CHR 0x0D \<notin> set (concat (map (txt_line diarize) (segments result'))) \<longrightarrow>
          fs' (output_path file_prefix ''.txt'') = Some transcript)"
  using save_outputs_success(2,3)[OF assms] by (simp add: universal_newlines_id)

theorem transcript_read_back_witness:
  "save_outputs example_externals ''transcript_1700000000'' False
     \<lparr>segments = [example_segment], language = Some ''en''\<rparr> Map.empty =
   (Inr (''hello world\<newline>'',
         [''whisperx_output/transcript_1700000000.json'',
          ''whisperx_output/transcript_1700000000.txt'',
          ''whisperx_output/transcript_1700000000.srt'',
          ''whisperx_output/transcript_1700000000.vtt'']),
    [''whisperx_output/transcript_1700000000.json'' \<mapsto> ''{}'',
     ''whisperx_output/transcript_1700000000.txt'' \<mapsto> ''hello world\<newline>'',
     ''whisperx_output/transcript_1700000000.srt'' \<mapsto>
        ''1\<newline>00:00:01,500 --> 00:00:03,750\<newline>hello world\<newline>\<newline>'',
     ''whisperx_output/transcript_1700000000.vtt'' \<mapsto>
        ''WEBVTT\<newline>\<newline>00:01.500 --> 00:03.750\<newline>hello world\<newline>\<newline>''])
   \<and> [''whisperx_output/transcript_1700000000.json'' \<mapsto> ''{}'',
     ''whisperx_output/transcript_1700000000.txt'' \<mapsto> ''hello world\<newline>'',
     ''whisperx_output/transcript_1700000000.srt'' \<mapsto>
        ''1\<newline>00:00:01,500 --> 00:00:03,750\<newline>hello world\<newline>\<newline>'',
     ''whisperx_output/transcript_1700000000.vtt'' \<mapsto>
        ''WEBVTT\<newline>\<newline>00:01.500 --> 00:03.750\<newline>hello world\<newline>\<newline>'']
       (output_path ''transcript_1700000000'' ''.txt'') = Some ''hello world\<newline>''"
proof -
  let ?doc = "\<lparr>segments = [example_segment], language = Some ''en''\<rparr>"
  have a: "\<And>path writing. open_error example_externals path writing = None"
    by (simp add: example_externals_def)
  have j: "json_dump example_externals ?doc = (''{}'', None)"
    by (simp add: example_externals_def)
  have s: "write_srt False 1 (segments ?doc) =
      (''1\<newline>00:00:01,500 --> 00:00:03,750\<newline>hello world\<newline>\<newline>'', None)"
    using hello_srt by (simp add: example_segment_def)
  have v: "write_vtt False (segments ?doc) =
      (''00:01.500 --> 00:03.750\<newline>hello world\<newline>\<newline>'', None)"
    using hello_vtt by (simp add: example_segment_def)
  have t: "concat (map (txt_line False) (segments ?doc)) = ''hello world\<newline>''"
    using hello_txt by (simp add: example_segment_def)
  have run: "save_outputs example_externals ''transcript_1700000000'' False ?doc Map.empty =
   (Inr (''hello world\<newline>'',
         [''whisperx_output/transcript_1700000000.json'',
          ''whisperx_output/transcript_1700000000.txt'',
          ''whisperx_output/transcript_1700000000.srt'',
          ''whisperx_output/transcript_1700000000.vtt'']),
    [''whisperx_output/transcript_1700000000.json'' \<mapsto> ''{}'',
     ''whisperx_output/transcript_1700000000.txt'' \<mapsto> ''hello world\<newline>'',
     ''whisperx_output/transcript_1700000000.srt'' \<mapsto>
        ''1\<newline>00:00:01,500 --> 00:00:03,750\<newline>hello world\<newline>\<newline>'',
     ''whisperx_output/transcript_1700000000.vtt'' \<mapsto>
        ''WEBVTT\<newline>\<newline>00:01.500 --> 00:03.750\<newline>hello world\<newline>\<newline>''])"
    using save_outputs_ok[where p = "''transcript_1700000000''" and fs = Map.empty,
        OF a j s v]
    by (simp only: t hello_read output_path_def output_dir_def append_Cons append_Nil)
  have cr: "CHR 0x0D \<notin> set (concat (map (txt_line False) (segments ?doc)))"
    unfolding t by simp
  from transcript_read_back[OF run] cr
  have "[''whisperx_output/transcript_1700000000.json'' \<mapsto> ''{}'',
     ''whisperx_output/transcript_1700000000.txt'' \<mapsto> ''hello world\<newline>'',
     ''whisperx_output/transcript_1700000000.srt'' \<mapsto>
        ''1\<newline>00:00:01,500 --> 00:00:03,750\<newline>hello world\<newline>\<newline>'',
     ''whisperx_output/transcript_1700000000.vtt'' \<mapsto>
        ''WEBVTT\<newline>\<newline>00:01.500 --> 00:03.750\<newline>hello world\<newline>\<newline>'']
       (output_path ''transcript_1700000000'' ''.txt'') = Some ''hello world\<newline>''"
    by blast
  with run show ?thesis by (simp only: simp_thms)
qed

text \<open>
  C7 as the specification has it fails: for a segment text with a carriage return
  inside, the file holds the carriage return and the returned transcript a newline.
\<close>

theorem transcript_carriage_return_counterexample:
  "fst (save_outputs example_externals ''transcript_1700000000'' False
         \<lparr>segments = [\<lparr>seg_start = float_literal 15 10, seg_end = float_literal 375 100,
                        seg_text = [CHR ''a'', CHR 0x0D, CHR ''b''], seg_speaker = None\<rparr>],
          language = Some ''en''\<rparr> Map.empty) =
     Inr ([CHR ''a'', CHR 0x0A, CHR ''b'', CHR 0x0A],
          [''whisperx_output/transcript_1700000000.json'',
           ''whisperx_output/transcript_1700000000.txt'',
           ''whisperx_output/transcript_1700000000.srt'',
           ''whisperx_output/transcript_1700000000.vtt''])
   \<and> snd (save_outputs example_externals ''transcript_1700000000'' False
         \<lparr>segments = [\<lparr>seg_start = float_literal 15 10, seg_end = float_literal 375 100,
                        seg_text = [CHR ''a'', CHR 0x0D, CHR ''b''], seg_speaker = None\<rparr>],
          language = Some ''en''\<rparr> Map.empty)
       ''whisperx_output/transcript_1700000000.txt'' =
     Some [CHR ''a'', CHR 0x0D, CHR ''b'', CHR 0x0A]"
proof -
  let ?doc = "\<lparr>segments = [\<lparr>seg_start = float_literal 15 10, seg_end = float_literal 375 100,
                        seg_text = [CHR ''a'', CHR 0x0D, CHR ''b''], seg_speaker = None\<rparr>],
          language = Some ''en''\<rparr>"
  have a: "\<And>path writing. open_error example_externals path writing = None"
    by (simp add: example_externals_def)
  have j: "json_dump example_externals ?doc = (''{}'', None)"
    by (simp add: example_externals_def)
  have s: "write_srt False 1 (segments ?doc) = (fst (write_srt False 1 (segments ?doc)), None)"
    by code_simp
  have v: "write_vtt False (segments ?doc) = (fst (write_vtt False (segments ?doc)), None)"
    by code_simp
  have t: "concat (map (txt_line False) (segments ?doc)) =
      [CHR ''a'', CHR 0x0D, CHR ''b'', CHR 0x0A]"
    by code_simp
  have u: "universal_newlines [CHR ''a'', CHR 0x0D, CHR ''b'', CHR 0x0A] =
      [CHR ''a'', CHR 0x0A, CHR ''b'', CHR 0x0A]"
    by code_simp
  have "save_outputs example_externals ''transcript_1700000000'' False ?doc Map.empty =
     (Inr ([CHR ''a'', CHR 0x0A, CHR ''b'', CHR 0x0A],
           [output_path ''transcript_1700000000'' ''.json'',
            output_path ''transcript_1700000000'' ''.txt'',
            output_path ''transcript_1700000000'' ''.srt'',
            output_path ''transcript_1700000000'' ''.vtt'']),
      [output_path ''transcript_1700000000'' ''.json'' \<mapsto> ''{}'',
       output_path ''transcript_1700000000'' ''.txt'' \<mapsto>
         [CHR ''a'', CHR 0x0D, CHR ''b'', CHR 0x0A],
       output_path ''transcript_1700000000'' ''.srt'' \<mapsto>
         fst (write_srt False 1 (segments ?doc)),
       output_path ''transcript_1700000000'' ''.vtt'' \<mapsto>
         ''WEBVTT\<newline>\<newline>'' @ fst (write_vtt False (segments ?doc))])"
    using save_outputs_ok[where p = "''transcript_1700000000''" and fs = Map.empty,
        OF a j s v]
    by (simp only: t u)
  then show ?thesis
    by (simp add: output_path_def output_dir_def del: write_srt.simps write_vtt.simps)
qed

section \<open>Speaker prefixes and cue text\<close>

lemma txt_line_prefix:
  "txt_line diarize s = speaker_prefix diarize s @ strip (seg_text s) @ ''\<newline>''"
  by (cases "seg_speaker s") (simp_all add: txt_line_def speaker_prefix_def)

lemma srt_text_prefix:
  "srt_text diarize s = speaker_prefix diarize s @ replace (strip (seg_text s)) ''-->'' ''->''"
  by (cases "seg_speaker s") (simp_all add: srt_text_def speaker_prefix_def Let_def)

lemma vtt_text_prefix:
  "vtt_text diarize s = speaker_prefix diarize s @ replace (strip (seg_text s)) ''-->'' ''->''"
  by (cases "seg_speaker s") (simp_all add: vtt_text_def speaker_prefix_def Let_def)

lemma speaker_prefix_empty:
  "speaker_prefix diarize s = [] \<longleftrightarrow> \<not> (diarize \<and> seg_speaker s \<noteq> None)"
  by (simp add: speaker_prefix_def)

lemma srt_cue_Inr:
  assumes "srt_cue diarize i s = Inr cue"
  shows "\<not> isl (format_timestamp (seg_start s) True '','')"
    and "\<not> isl (format_timestamp (seg_end s) True '','')"
    and "cue = str_int (int i) @ ''\<newline>'' @ timestamp_of (seg_start s) True '','' @ '' --> ''
           @ timestamp_of (seg_end s) True '','' @ ''\<newline>'' @ speaker_prefix diarize s
           @ replace (strip (seg_text s)) ''-->'' ''->'' @ ''\<newline>\<newline>''"
  using assms
  by (auto simp: srt_cue_def timestamp_of_def srt_text_prefix split: sum.splits)

lemma vtt_cue_Inr:
  assumes "vtt_cue diarize s = Inr cue"
  shows "\<not> isl (format_timestamp (seg_start s) False ''.'')"
    and "\<not> isl (format_timestamp (seg_end s) False ''.'')"
    and "cue = timestamp_of (seg_start s) False ''.'' @ '' --> ''
           @ timestamp_of (seg_end s) False ''.'' @ ''\<newline>'' @ speaker_prefix diarize s
           @ replace (strip (seg_text s)) ''-->'' ''->'' @ ''\<newline>\<newline>''"
  using assms
  by (auto simp: vtt_cue_def timestamp_of_def vtt_text_prefix split: sum.splits)

lemma write_srt_complete:
  "write_srt diarize i segs = (written, None) \<Longrightarrow>
   written = concat (map (\<lambda>(j, s).
       str_int (int j) @ ''\<newline>'' @ timestamp_of (seg_start s) True '','' @ '' --> ''
       @ timestamp_of (seg_end s) True '','' @ ''\<newline>'' @ speaker_prefix diarize s
       @ replace (strip (seg_text s)) ''-->'' ''->'' @ ''\<newline>\<newline>'') (List.enumerate i segs))
   \<and> (\<forall>s\<in>set segs. \<not> isl (format_timestamp (seg_start s) True '','')
                      \<and> \<not> isl (format_timestamp (seg_end s) True '',''))"
proof (induction segs arbitrary: i written)
  case Nil
  then show ?case by simp
next
  case (Cons s segs)
  from Cons.prems obtain cue where cue: "srt_cue diarize i s = Inr cue"
    by (cases "srt_cue diarize i s") auto
  obtain rest err where rest: "write_srt diarize (Suc i) segs = (rest, err)"
    by (cases "write_srt diarize (Suc i) segs")
  from Cons.prems cue rest have w: "written = cue @ rest" and e: "err = None"
    by simp_all
  from Cons.IH[of "Suc i" rest] rest e
  have ih: "rest = concat (map (\<lambda>(j, s).
       str_int (int j) @ ''\<newline>'' @ timestamp_of (seg_start s) True '','' @ '' --> ''
       @ timestamp_of (seg_end s) True '','' @ ''\<newline>'' @ speaker_prefix diarize s
       @ replace (strip (seg_text s)) ''-->'' ''->'' @ ''\<newline>\<newline>'') (List.enumerate (Suc i) segs))"
    "\<forall>s\<in>set segs. \<not> isl (format_timestamp (seg_start s) True '','')
                      \<and> \<not> isl (format_timestamp (seg_end s) True '','')"
    by simp_all
  from srt_cue_Inr[OF cue] w ih show ?case
    by simp
qed

lemma write_vtt_complete:
  "write_vtt diarize segs = (written, None) \<Longrightarrow>
   written = concat (map (\<lambda>s.
       timestamp_of (seg_start s) False ''.'' @ '' --> ''
       @ timestamp_of (seg_end s) False ''.'' @ ''\<newline>'' @ speaker_prefix diarize s
       @ replace (strip (seg_text s)) ''-->'' ''->'' @ ''\<newline>\<newline>'') segs)
   \<and> (\<forall>s\<in>set segs. \<not> isl (format_timestamp (seg_start s) False ''.'')
                      \<and> \<not> isl (format_timestamp (seg_end s) False ''.''))"
proof (induction segs arbitrary: written)
  case Nil
  then show ?case by simp
next
  case (Cons s segs)
  from Cons.prems obtain cue where cue: "vtt_cue diarize s = Inr cue"
    by (cases "vtt_cue diarize s") auto
  obtain rest err where rest: "write_vtt diarize segs = (rest, err)"
    by (cases "write_vtt diarize segs")
  from Cons.prems cue rest have w: "written = cue @ rest" and e: "err = None"
    by simp_all
  from Cons.IH[of rest] rest e
  have ih: "rest = concat (map (\<lambda>s.
       timestamp_of (seg_start s) False ''.'' @ '' --> ''
       @ timestamp_of (seg_end s) False ''.'' @ ''\<newline>'' @ speaker_prefix diarize s
       @ replace (strip (seg_text s)) ''-->'' ''->'' @ ''\<newline>\<newline>'') segs)"
    "\<forall>s\<in>set segs. \<not> isl (format_timestamp (seg_start s) False ''.'')
                      \<and> \<not> isl (format_timestamp (seg_end s) False ''.'')"
    by simp_all
  from vtt_cue_Inr[OF cue] w ih show ?case
    by simp
qed

lemma save_outputs_subtitles:
  assumes "save_outputs ext p d r fs = (Inr (t, fl), fs')"
  shows "snd (write_srt d 1 (segments r)) = None"
    and "snd (write_vtt d (segments r)) = None"
    and "fs' (output_path p ''.srt'') = Some (fst (write_srt d 1 (segments r)))"
    and "fs' (output_path p ''.vtt'') = Some (''WEBVTT\<newline>\<newline>'' @ fst (write_vtt d (segments r)))"
  using assms
  by (auto simp: save_outputs_def write_file_def read_file_def Let_def output_path_distinct
      simp del: write_srt.simps write_vtt.simps
      split: prod.splits option.splits sum.splits)

text \<open>
  C10. After a successful export the three files hold, segment by segment in order: the
  text file the stripped text and a newline; the SRT file the index from 1, the two
  timestamps with hours and a comma, the cue text and an empty line; the VTT file the
  header, then the two timestamps with a period, the cue text and an empty line, the cue
  text being the stripped text with \<open>-->\<close> replaced. In all three the text is preceded
  by \<open>[speaker]: \<close> if and only if the run is diarized and the segment has a speaker,
  and by nothing otherwise; every timestamp written is one \<open>format_timestamp\<close> returned.
\<close>

theorem speaker_prefix_formats:
  assumes "save_outputs ext file_prefix diarize result' fs =
      (Inr (transcript, output_files), fs')"
  shows "fs' (output_path file_prefix ''.txt'') =
           Some (concat (map (\<lambda>s. speaker_prefix diarize s @ strip (seg_text s) @ ''\<newline>'')
                   (segments result')))
     \<and> fs' (output_path file_prefix ''.srt'') =
           Some (concat (map (\<lambda>(i, s).
                   str_int (int i) @ ''\<newline>'' @ timestamp_of (seg_start s) True '',''
                   @ '' --> '' @ timestamp_of (seg_end s) True '','' @ ''\<newline>''
                   @ speaker_prefix diarize s @ replace (strip (seg_text s)) ''-->'' ''->''
                   @ ''\<newline>\<newline>'') (List.enumerate 1 (segments result'))))
     \<and> fs' (output_path file_prefix ''.vtt'') =
           Some (''WEBVTT\<newline>\<newline>'' @ concat (map (\<lambda>s.
                   timestamp_of (seg_start s) False ''.'' @ '' --> ''
                   @ timestamp_of (seg_end s) False ''.'' @ ''\<newline>''
                   @ speaker_prefix diarize s @ replace (strip (seg_text s)) ''-->'' ''->''
                   @ ''\<newline>\<newline>'') (segments result')))
     \<and> (\<forall>s\<in>set (segments result').
            \<not> isl (format_timestamp (seg_start s) True '','')
            \<and> \<not> isl (format_timestamp (seg_end s) True '','')
            \<and> \<not> isl (format_timestamp (seg_start s) False ''.'')
            \<and> \<not> isl (format_timestamp (seg_end s) False ''.'')
            \<and> (speaker_prefix diarize s = [] \<longleftrightarrow> \<not> (diarize \<and> seg_speaker s \<noteq> None))
            \<and> (diarize \<and> seg_speaker s \<noteq> None \<longrightarrow>
                 speaker_prefix diarize s = ''['' @ the (seg_speaker s) @ '']: ''))"
proof -
  note sub = save_outputs_subtitles[OF assms]
  have srt: "write_srt diarize 1 (segments result') =
      (fst (write_srt diarize 1 (segments result')), None)"
    using sub(1) by (simp add: prod_eq_iff)
  have vtt: "write_vtt diarize (segments result') =
      (fst (write_vtt diarize (segments result')), None)"
    using sub(2) by (simp add: prod_eq_iff)
  have lines: "map (txt_line diarize) (segments result') =
      map (\<lambda>s. speaker_prefix diarize s @ strip (seg_text s) @ ''\<newline>'') (segments result')"
    by (simp add: txt_line_prefix)
  from save_outputs_success(2)[OF assms]
  have f1: "fs' (output_path file_prefix ''.txt'') =
           Some (concat (map (\<lambda>s. speaker_prefix diarize s @ strip (seg_text s) @ ''\<newline>'')
                   (segments result')))"
    by (simp only: lines)
  from write_srt_complete[OF srt] sub(3)
  have f2: "fs' (output_path file_prefix ''.srt'') =
           Some (concat (map (\<lambda>(i, s).
                   str_int (int i) @ ''\<newline>'' @ timestamp_of (seg_start s) True '',''
                   @ '' --> '' @ timestamp_of (seg_end s) True '','' @ ''\<newline>''
                   @ speaker_prefix diarize s @ replace (strip (seg_text s)) ''-->'' ''->''
                   @ ''\<newline>\<newline>'') (List.enumerate 1 (segments result'))))"
    and t2: "\<forall>s\<in>set (segments result').
            \<not> isl (format_timestamp (seg_start s) True '','')
            \<and> \<not> isl (format_timestamp (seg_end s) True '','')"
    by simp_all
  from write_vtt_complete[OF vtt] sub(4)
  have f3: "fs' (output_path file_prefix ''.vtt'') =
           Some (''WEBVTT\<newline>\<newline>'' @ concat (map (\<lambda>s.
                   timestamp_of (seg_start s) False ''.'' @ '' --> ''
                   @ timestamp_of (seg_end s) False ''.'' @ ''\<newline>''
                   @ speaker_prefix diarize s @ replace (strip (seg_text s)) ''-->'' ''->''
                   @ ''\<newline>\<newline>'') (segments result')))"
    and t3: "\<forall>s\<in>set (segments result').
            \<not> isl (format_timestamp (seg_start s) False ''.'')
            \<and> \<not> isl (format_timestamp (seg_end s) False ''.'')"
    by simp_all
  have f4: "\<forall>s. (speaker_prefix diarize s = [] \<longleftrightarrow> \<not> (diarize \<and> seg_speaker s \<noteq> None))
            \<and> (diarize \<and> seg_speaker s \<noteq> None \<longrightarrow>
                 speaker_prefix diarize s = ''['' @ the (seg_speaker s) @ '']: '')"
    by (simp add: speaker_prefix_def)
  from f1 f2 f3 t2 t3 f4 show ?thesis
    by (intro conjI ballI) blast+
qed

theorem speaker_prefix_formats_witness:
  "snd (save_outputs example_externals ''transcript_1700000000'' True
         \<lparr>segments = [example_segment\<lparr>seg_speaker := Some ''SPEAKER_00''\<rparr>,
                      example_segment\<lparr>seg_text := '' no speaker ''\<rparr>],
          language = None\<rparr> Map.empty)
       ''whisperx_output/transcript_1700000000.txt'' =
     Some ''[SPEAKER_00]: hello world\<newline>no speaker\<newline>''
   \<and> snd (save_outputs example_externals ''transcript_1700000000'' True
         \<lparr>segments = [example_segment\<lparr>seg_speaker := Some ''SPEAKER_00''\<rparr>,
                      example_segment\<lparr>seg_text := '' no speaker ''\<rparr>],
          language = None\<rparr> Map.empty)
       ''whisperx_output/transcript_1700000000.srt'' =
     Some (''1\<newline>00:00:01,500 --> 00:00:03,750\<newline>[SPEAKER_00]: hello world\<newline>\<newline>''
           @ ''2\<newline>00:00:01,500 --> 00:00:03,750\<newline>no speaker\<newline>\<newline>'')
   \<and> snd (save_outputs example_externals ''transcript_1700000000'' True
         \<lparr>segments = [example_segment\<lparr>seg_speaker := Some ''SPEAKER_00''\<rparr>,
                      example_segment\<lparr>seg_text := '' no speaker ''\<rparr>],
          language = None\<rparr> Map.empty)
       ''whisperx_output/transcript_1700000000.vtt'' =
     Some (''WEBVTT\<newline>\<newline>00:01.500 --> 00:03.750\<newline>[SPEAKER_00]: hello world\<newline>\<newline>''
           @ ''00:01.500 --> 00:03.750\<newline>no speaker\<newline>\<newline>'')"
proof -
  let ?doc = "\<lparr>segments = [example_segment\<lparr>seg_speaker := Some ''SPEAKER_00''\<rparr>,
                      example_segment\<lparr>seg_text := '' no speaker ''\<rparr>],
          language = None\<rparr>"
  let ?run = "save_outputs example_externals ''transcript_1700000000'' True ?doc Map.empty"
  have "fst ?run =
      Inr (''[SPEAKER_00]: hello world\<newline>no speaker\<newline>'',
           [''whisperx_output/transcript_1700000000.json'',
            ''whisperx_output/transcript_1700000000.txt'',
            ''whisperx_output/transcript_1700000000.srt'',
            ''whisperx_output/transcript_1700000000.vtt''])"
    by code_simp
  then have run: "?run =
      (Inr (''[SPEAKER_00]: hello world\<newline>no speaker\<newline>'',
           [''whisperx_output/transcript_1700000000.json'',
            ''whisperx_output/transcript_1700000000.txt'',
            ''whisperx_output/transcript_1700000000.srt'',
            ''whisperx_output/transcript_1700000000.vtt'']), snd ?run)"
    by (simp add: prod_eq_iff)
  have p: "output_path ''transcript_1700000000'' ''.txt'' =
      ''whisperx_output/transcript_1700000000.txt''"
    "output_path ''transcript_1700000000'' ''.srt'' =
      ''whisperx_output/transcript_1700000000.srt''"
    "output_path ''transcript_1700000000'' ''.vtt'' =
      ''whisperx_output/transcript_1700000000.vtt''"
    by code_simp+
  have t: "concat (map (\<lambda>s. speaker_prefix True s @ strip (seg_text s) @ ''\<newline>'')
                   (segments ?doc)) = ''[SPEAKER_00]: hello world\<newline>no speaker\<newline>''"
    by code_simp
  have s: "concat (map (\<lambda>(i, s).
                   str_int (int i) @ ''\<newline>'' @ timestamp_of (seg_start s) True '',''
                   @ '' --> '' @ timestamp_of (seg_end s) True '','' @ ''\<newline>''
                   @ speaker_prefix True s @ replace (strip (seg_text s)) ''-->'' ''->''
                   @ ''\<newline>\<newline>'') (List.enumerate 1 (segments ?doc))) =
      ''1\<newline>00:00:01,500 --> 00:00:03,750\<newline>[SPEAKER_00]: hello world\<newline>\<newline>''
       @ ''2\<newline>00:00:01,500 --> 00:00:03,750\<newline>no speaker\<newline>\<newline>''"
    by code_simp
  have v: "''WEBVTT\<newline>\<newline>'' @ concat (map (\<lambda>s.
                   timestamp_of (seg_start s) False ''.'' @ '' --> ''
                   @ timestamp_of (seg_end s) False ''.'' @ ''\<newline>''
                   @ speaker_prefix True s @ replace (strip (seg_text s)) ''-->'' ''->''
                   @ ''\<newline>\<newline>'') (segments ?doc)) =
      ''WEBVTT\<newline>\<newline>00:01.500 --> 00:03.750\<newline>[SPEAKER_00]: hello world\<newline>\<newline>''
       @ ''00:01.500 --> 00:03.750\<newline>no speaker\<newline>\<newline>''"
    by code_simp
  from speaker_prefix_formats[OF run]
  show ?thesis
    by (simp only: p t s v simp_thms)
qed

text \<open>
  C5 fails on the code. The one left-to-right pass of \<open>replace\<close> turns \<open>--->\<close> into
  \<open>-->\<close>: the cue text of both subtitle files is then the arrow itself.
\<close>

theorem arrow_survives_replace:
  "srt_text False \<lparr>seg_start = float_literal 0 1, seg_end = float_literal 1 1,
                   seg_text = ''--->'', seg_speaker = None\<rparr> = ''-->''
   \<and> vtt_text False \<lparr>seg_start = float_literal 0 1, seg_end = float_literal 1 1,
                     seg_text = ''--->'', seg_speaker = None\<rparr> = ''-->''
   \<and> fst (write_srt False 1 [\<lparr>seg_start = float_literal 0 1, seg_end = float_literal 1 1,
                               seg_text = ''--->'', seg_speaker = None\<rparr>]) =
       ''1\<newline>00:00:00,000 --> 00:00:01,000\<newline>-->\<newline>\<newline>''
   \<and> contains (srt_text False \<lparr>seg_start = float_literal 0 1, seg_end = float_literal 1 1,
                   seg_text = ''--->'', seg_speaker = None\<rparr>) ''-->''"
  by code_simp

section \<open>The entry point\<close>

lemma handle_exception_Inr [simp]: "handle_exception (Inr out) = out"
  by (simp add: handle_exception_def)

lemma handle_exception_Inl [simp]:
  "handle_exception (Inl e) = (''Error: '' @ str_error e, [])"
  by (simp add: handle_exception_def)

lemma outer_try_pipeline:
  "handle_exception (fst (outer_try ext cfg p w)) = handle_exception (fst (pipeline ext cfg p w))
   \<and> snd (outer_try ext cfg p w) = snd (pipeline ext cfg p w)"
  by (simp add: outer_try_def pipeline_def inner_try_def Let_def
      split: prod.splits sum.splits)

lemma transcribe_audio_pipeline:
  assumes "mkdir_error ext = None" and "file_prefix_of (time_time ext) = Inr p"
  shows "transcribe_audio ext cfg w =
     (Inr (handle_exception (fst (pipeline ext cfg p w))), snd (pipeline ext cfg p w))"
  using assms outer_try_pipeline[of ext cfg p w]
  by (cases "outer_try ext cfg p w") (simp add: transcribe_audio_def)

lemma pipeline_success:
  assumes "fst (pipeline ext cfg p w) = Inr (t, fl)"
  shows "fl = [output_path p ''.json'', output_path p ''.txt'', output_path p ''.srt'',
               output_path p ''.vtt'']"
  using assms
  by (auto simp: pipeline_def split: prod.splits sum.splits dest: save_outputs_success(1))

text \<open>
  C6. Once the output directory and the prefix exist, no exception leaves
  \<open>transcribe_audio\<close>: if a statement inside the \<open>try\<close> blocks (model cache, parameter
  parsing, stages, export) raises \<open>e\<close>, the function returns the message
  \<open>Error: \<close> followed by \<open>str(e)\<close> with an empty list; otherwise it returns the transcript
  with the list of the four files. The list is empty exactly when something was raised.
\<close>

theorem transcribe_audio_never_raises:
  assumes "mkdir_error ext = None" and "file_prefix_of (time_time ext) = Inr p"
  shows "(\<forall>e. fst (pipeline ext cfg p w) = Inl e \<longrightarrow>
            transcribe_audio ext cfg w =
              (Inr (''Error: '' @ str_error e, []), snd (pipeline ext cfg p w)))
     \<and> (\<forall>t fl. fst (pipeline ext cfg p w) = Inr (t, fl) \<longrightarrow>
            transcribe_audio ext cfg w = (Inr (t, fl), snd (pipeline ext cfg p w))
            \<and> fl = [output_path p ''.json'', output_path p ''.txt'', output_path p ''.srt'',
                     output_path p ''.vtt''])
     \<and> (\<exists>msg fl. fst (transcribe_audio ext cfg w) = Inr (msg, fl)
            \<and> (fl = [] \<longleftrightarrow> (\<exists>e. fst (pipeline ext cfg p w) = Inl e)))"
proof -
  note ta = transcribe_audio_pipeline[OF assms, of cfg w]
  show ?thesis
  proof (cases "fst (pipeline ext cfg p w)")
    case (Inl e)
    then show ?thesis by (simp add: ta)
  next
    case (Inr out)
    obtain t fl where out: "out = (t, fl)" by (cases out)
    from pipeline_success[of ext cfg p w t fl] Inr out
    have "fl = [output_path p ''.json'', output_path p ''.txt'', output_path p ''.srt'',
               output_path p ''.vtt'']"
      by simp
    with Inr out show ?thesis by (simp add: ta)
  qed
qed

theorem transcribe_audio_never_raises_witness:
  "fst (transcribe_audio example_externals example_config initial_world) =
     Inr (''hello world\<newline>'',
          [''whisperx_output/transcript_1700000000.json'',
           ''whisperx_output/transcript_1700000000.txt'',
           ''whisperx_output/transcript_1700000000.srt'',
           ''whisperx_output/transcript_1700000000.vtt''])
   \<and> fst (transcribe_audio
           (example_externals\<lparr>transcribe := \<lambda>cs h a l t b c. Inl (RuntimeError ''out of memory'')\<rparr>)
           example_config initial_world) =
     Inr (''Error: out of memory'', [])"
proof -
  have m: "mkdir_error example_externals = None"
    "mkdir_error
       (example_externals\<lparr>transcribe := \<lambda>cs h a l t b c. Inl (RuntimeError ''out of memory'')\<rparr>)
     = None"
    by (simp_all add: example_externals_def)
  have f: "file_prefix_of (time_time example_externals) = Inr ''transcript_1700000000''"
    "file_prefix_of (time_time
       (example_externals\<lparr>transcribe := \<lambda>cs h a l t b c. Inl (RuntimeError ''out of memory'')\<rparr>))
     = Inr ''transcript_1700000000''"
    by code_simp+
  have ok: "fst (pipeline example_externals example_config ''transcript_1700000000''
                  initial_world) =
     Inr (''hello world\<newline>'',
          [''whisperx_output/transcript_1700000000.json'',
           ''whisperx_output/transcript_1700000000.txt'',
           ''whisperx_output/transcript_1700000000.srt'',
           ''whisperx_output/transcript_1700000000.vtt''])"
    by code_simp
  have bad: "fst (pipeline
       (example_externals\<lparr>transcribe := \<lambda>cs h a l t b c. Inl (RuntimeError ''out of memory'')\<rparr>)
       example_config ''transcript_1700000000'' initial_world) =
     Inl (RuntimeError ''out of memory'')"
    by code_simp
  from transcribe_audio_never_raises[OF m(1) f(1), of example_config initial_world] ok
  have 1: "fst (transcribe_audio example_externals example_config initial_world) =
     Inr (''hello world\<newline>'',
          [''whisperx_output/transcript_1700000000.json'',
           ''whisperx_output/transcript_1700000000.txt'',
           ''whisperx_output/transcript_1700000000.srt'',
           ''whisperx_output/transcript_1700000000.vtt''])"
    by simp
  from transcribe_audio_never_raises[OF m(2) f(2), of example_config initial_world] bad
  have 2: "fst (transcribe_audio
           (example_externals\<lparr>transcribe := \<lambda>cs h a l t b c. Inl (RuntimeError ''out of memory'')\<rparr>)
           example_config initial_world) =
     Inr (''Error: out of memory'', [])"
    by simp
  from 1 2 show ?thesis by (simp only: simp_thms)
qed

section \<open>Speaker bounds\<close>

lemma get_asr_model_no_stage_call:
  "get_asr_model ext w n d c = (r, w1) \<Longrightarrow> \<forall>x\<in>set (calls_since w w1). \<not> is_stage_call x"
  by (auto simp: get_asr_model_def reload_asr_model_def calls_since_def Let_def
      split: option.splits sum.splits if_splits)

lemma pipeline_speakers_error:
  assumes "get_asr_model ext w (cfg_model cfg) (cfg_device cfg) (cfg_compute_type cfg) =
      (Inr h, w1)"
    and "speakers_error cfg = Some e"
  shows "pipeline ext cfg p w = (Inl e, w1)"
  using assms by (simp add: pipeline_def speakers_error_def split: sum.splits)

text \<open>
  C8, as the code parses the bounds. Whether or not \<open>diarize\<close> is set, \<open>min_speakers\<close> and
  \<open>max_speakers\<close> are each left alone when empty or \<open>None\<close> and otherwise converted by
  \<open>int()\<close>, whose result may have any sign. When \<open>int()\<close> rejects one of them, the model
  cache has been consulted (and the model possibly loaded) but no transcription, alignment
  or diarization capability has been invoked, and \<open>transcribe_audio\<close> returns
  \<open>Error: \<close> followed by the message, with an empty list.
\<close>

theorem speaker_bounds_error:
  assumes "mkdir_error ext = None" and "file_prefix_of (time_time ext) = Inr p"
    and "get_asr_model ext w (cfg_model cfg) (cfg_device cfg) (cfg_compute_type cfg) =
      (Inr h, w1)"
    and "speakers_error cfg = Some e"
  shows "transcribe_audio ext cfg w = (Inr (''Error: '' @ str_error e, []), w1)
     \<and> (\<forall>c\<in>set (calls_since w w1). \<not> is_stage_call c)
     \<and> (\<forall>s. s \<noteq> [] \<longrightarrow>
            parse_speakers (PStr s) =
              (case int_of_str s of Inl e' \<Rightarrow> Inl e' | Inr n \<Rightarrow> Inr (PInt n)))
     \<and> parse_speakers (PStr []) = Inr (PStr [])
     \<and> parse_speakers PNone = Inr PNone"
proof -
  from pipeline_speakers_error[OF assms(3,4), of p]
  have "pipeline ext cfg p w = (Inl e, w1)" .
  with transcribe_audio_pipeline[OF assms(1,2), of cfg w]
  have "transcribe_audio ext cfg w = (Inr (''Error: '' @ str_error e, []), w1)"
    by simp
  moreover note get_asr_model_no_stage_call[OF assms(3)]
  ultimately show ?thesis
    by (simp add: parse_speakers_def)
qed

theorem speaker_bounds_error_witness:
  "fst (transcribe_audio example_externals
          (example_config\<lparr>cfg_diarize := True, cfg_max_speakers := PStr ''abc''\<rparr>)
          initial_world) =
     Inr (''Error: invalid literal for int() with base 10: '' @ [CHR 0x27] @ ''abc''
          @ [CHR 0x27], [])
   \<and> calls (snd (transcribe_audio example_externals
          (example_config\<lparr>cfg_diarize := True, cfg_max_speakers := PStr ''abc''\<rparr>)
          initial_world)) = [Call_load_model ''medium'' ''cuda'' ''float16'']"
proof -
  define cfg where "cfg = example_config\<lparr>cfg_diarize := True, cfg_max_speakers := PStr ''abc''\<rparr>"
  define w1 where "w1 = snd (get_asr_model example_externals initial_world (cfg_model cfg)
    (cfg_device cfg) (cfg_compute_type cfg))"
  have m: "mkdir_error example_externals = None"
    by (simp add: example_externals_def)
  have f: "file_prefix_of (time_time example_externals) = Inr ''transcript_1700000000''"
    by code_simp
  have "fst (get_asr_model example_externals initial_world (cfg_model cfg)
    (cfg_device cfg) (cfg_compute_type cfg)) = Inr 0"
    unfolding cfg_def by code_simp
  then have g: "get_asr_model example_externals initial_world (cfg_model cfg)
    (cfg_device cfg) (cfg_compute_type cfg) = (Inr 0, w1)"
    unfolding w1_def by (simp add: prod_eq_iff)
  have c: "calls w1 = [Call_load_model ''medium'' ''cuda'' ''float16'']"
    unfolding w1_def cfg_def by code_simp
  have e: "speakers_error cfg =
      Some (ValueError (''invalid literal for int() with base 10: '' @ [CHR 0x27] @ ''abc''
          @ [CHR 0x27]))"
    unfolding cfg_def by code_simp
  from speaker_bounds_error[OF m f g e] c
  show ?thesis
    unfolding cfg_def by simp
qed

text \<open>
  C8 as the specification has it fails: a bound does not have to be positive. The
  string \<open>-3\<close> is accepted, and the diarization capability is invoked with \<open>-3\<close>.
\<close>

theorem speaker_bounds_negative_counterexample:
  "parse_speakers (PStr ''-3'') = Inr (PInt (- 3))
   \<and> Call_diarize_model 3 (Filepath ''audio.wav'') (PInt (- 3)) PNone
     \<in> set (calls (snd (transcribe_audio example_externals
          (example_config\<lparr>cfg_diarize := True, cfg_min_speakers := PStr ''-3''\<rparr>)
          initial_world)))"
  by code_simp

section \<open>The run prefix\<close>

text \<open>
  C9 fails on the code. The prefix keeps only the whole seconds of the clock: a run at
  \<open>1700000000.25\<close> and a run at \<open>1700000000.75\<close> get the same prefix and the same four
  paths, and the second run, on the files the first one left, replaces the first one's
  transcript.
\<close>

theorem same_second_same_prefix:
  "file_prefix_of (float_literal 170000000025 100) = Inr ''transcript_1700000000''
   \<and> file_prefix_of (float_literal 170000000075 100) = Inr ''transcript_1700000000''
   \<and> files (snd (transcribe_audio example_externals example_config initial_world))
       ''whisperx_output/transcript_1700000000.txt'' = Some ''hello world\<newline>''
   \<and> fst (transcribe_audio
        (example_externals\<lparr>time_time := float_literal 170000000075 100,
           transcribe := \<lambda>cs h a l t b c.
             Inr \<lparr>segments = [example_segment\<lparr>seg_text := ''second run''\<rparr>],
                  language = Some ''en''\<rparr>\<rparr>)
        example_config
        (snd (transcribe_audio example_externals example_config initial_world))) =
       Inr (''second run\<newline>'',
            [''whisperx_output/transcript_1700000000.json'',
             ''whisperx_output/transcript_1700000000.txt'',
             ''whisperx_output/transcript_1700000000.srt'',
             ''whisperx_output/transcript_1700000000.vtt''])
   \<and> files (snd (transcribe_audio
        (example_externals\<lparr>time_time := float_literal 170000000075 100,
           transcribe := \<lambda>cs h a l t b c.
             Inr \<lparr>segments = [example_segment\<lparr>seg_text := ''second run''\<rparr>],
                  language = Some ''en''\<rparr>\<rparr>)
        example_config
        (snd (transcribe_audio example_externals example_config initial_world))))
       ''whisperx_output/transcript_1700000000.txt'' = Some ''second run\<newline>''"
  by code_simp

end
